theory Spec2Isabelle
  imports Main
begin

section \<open>Message delivery status (package message)\<close>

text \<open>
  \<^verbatim>\<open>type Status int\<close> with the constants numbered by \<^verbatim>\<open>iota\<close> from
  \<^verbatim>\<open>PendingStatus\<close> (0) to \<^verbatim>\<open>DeliveredStatus\<close> (12). A Go \<^verbatim>\<open>int\<close> is a
  mathematical integer here: \<^verbatim>\<open>String\<close> only compares it with the constants.
\<close>

type_synonym Status = int

definition PendingStatus :: Status where "PendingStatus = 0"
definition QueuedStatus :: Status where "QueuedStatus = 1"
definition CachedStatus :: Status where "CachedStatus = 2"
definition SentStatus :: Status where "SentStatus = 3"
definition ExpiredStatus :: Status where "ExpiredStatus = 4"
definition ResendStatus :: Status where "ResendStatus = 5"
definition FutureStatus :: Status where "FutureStatus = 6"
definition LowPowStatus :: Status where "LowPowStatus = 7"
definition InvalidAESStatus :: Status where "InvalidAESStatus = 8"
definition OversizedMessageStatus :: Status where "OversizedMessageStatus = 9"
definition OversizedVersionStatus :: Status where "OversizedVersionStatus = 10"
definition RejectedStatus :: Status where "RejectedStatus = 11"
definition DeliveredStatus :: Status where "DeliveredStatus = 12"

text \<open>The constants of the \<^verbatim>\<open>const\<close> block, in declaration order.\<close>

definition declared_statuses :: "Status list" where
  "declared_statuses =
     [PendingStatus, QueuedStatus, CachedStatus, SentStatus, ExpiredStatus, ResendStatus,
      FutureStatus, LowPowStatus, InvalidAESStatus, OversizedMessageStatus,
      OversizedVersionStatus, RejectedStatus, DeliveredStatus]"

text \<open>
  \<^verbatim>\<open>func (s Status) String() string\<close>: the \<^verbatim>\<open>switch\<close> in the order of its cases;
  there is no case for \<^verbatim>\<open>CachedStatus\<close>, and the statement after the switch returns
  \<^verbatim>\<open>"unknown"\<close>.
\<close>

definition Status_String :: "Status \<Rightarrow> string" where
  "Status_String s =
     (if s = PendingStatus then ''Pending''
      else if s = QueuedStatus then ''Queued''
      else if s = SentStatus then ''Sent''
      else if s = RejectedStatus then ''Rejected''
      else if s = DeliveredStatus then ''Delivered''
      else if s = ExpiredStatus then ''ExpiredTTL''
      else if s = ResendStatus then ''Resend''
      else if s = FutureStatus then ''FutureDelivery''
      else if s = LowPowStatus then ''LowPOWValue''
      else if s = InvalidAESStatus then ''Invalid AES-GCM-Nonce''
      else if s = OversizedMessageStatus then ''OversizedMessage''
      else if s = OversizedVersionStatus then ''HigherWhisperVersion''
      else ''unknown'')"

section \<open>Go errors, script values and the node configuration\<close>

text \<open>
  A Go \<^verbatim>\<open>error\<close> value. \<open>Error\<close> is an error that only has its text
  (\<^verbatim>\<open>errors.New\<close>); \<open>RPCError\<close> is one that implements \<^verbatim>\<open>rpc.Error\<close>, that is, has
  \<^verbatim>\<open>ErrorCode()\<close> next to \<^verbatim>\<open>Error()\<close>; \<open>NotExistError\<close> is one that
  \<^verbatim>\<open>os.IsNotExist\<close> accepts.
\<close>

datatype goerror = Error string | RPCError int string | NotExistError string

fun Error_text :: "goerror \<Rightarrow> string" where
  "Error_text (Error msg) = msg"
| "Error_text (RPCError code msg) = msg"
| "Error_text (NotExistError msg) = msg"

text \<open>\<^verbatim>\<open>ErrorCode()\<close>, for the errors that have it.\<close>

fun ErrorCode :: "goerror \<Rightarrow> int option" where
  "ErrorCode (RPCError code msg) = Some code"
| "ErrorCode (Error msg) = None"
| "ErrorCode (NotExistError msg) = None"

fun os_IsNotExist :: "goerror \<Rightarrow> bool" where
  "os_IsNotExist (NotExistError msg) = True"
| "os_IsNotExist (Error msg) = False"
| "os_IsNotExist (RPCError code msg) = False"

text \<open>
  What a function of the execution policy returns in its \<^verbatim>\<open>error\<close> result: an error as
  it is, an error wrapped in \<^verbatim>\<open>common.StopRPCCallError\<close>, or no return at all because
  a nil pointer was dereferenced.
\<close>

datatype failure = Failed goerror | StopRPCCallError goerror | NilDereference

text \<open>
  Values of the script engine, as far as the policy builds them. \<open>JSRaw\<close> is a
  \<^verbatim>\<open>json.RawMessage\<close> handed to \<^verbatim>\<open>Set\<close> as it is (\<open>None\<close> is the nil message). An
  object keeps its properties in the order in which they were first set.
\<close>

datatype jsvalue =
    JSNull
  | JSBool bool
  | JSNumber int
  | JSString string
  | JSRaw "string option"
  | JSArray "jsvalue list"
  | JSObject "(string \<times> jsvalue) list"

type_synonym object = "(string \<times> jsvalue) list"

text \<open>\<^verbatim>\<open>Object.Set(name, value)\<close>: overwrite the property in place, or append it.\<close>

fun obj_Set :: "string \<Rightarrow> jsvalue \<Rightarrow> object \<Rightarrow> object" where
  "obj_Set name v [] = [(name, v)]"
| "obj_Set name v ((k, old) # ps) =
     (if k = name then (k, v) # ps else (k, old) # obj_Set name v ps)"

text \<open>The object that \<^verbatim>\<open>call.Otto.Object(`({"jsonrpc":"2.0"})`)\<close> evaluates to.\<close>

definition response_literal :: object where
  "response_literal = [(''jsonrpc'', JSString ''2.0'')]"

text \<open>The \<^verbatim>\<open>error\<close> property of a response, read back as (code, message).\<close>

definition response_error :: "object \<Rightarrow> (int \<times> string) option" where
  "response_error resp =
     (case map_of resp ''error'' of
        Some (JSObject ps) \<Rightarrow>
          (case (map_of ps ''code'', map_of ps ''message'') of
             (Some (JSNumber code), Some (JSString msg)) \<Rightarrow> Some (code, msg)
           | _ \<Rightarrow> None)
      | _ \<Rightarrow> None)"

text \<open>
  \<^verbatim>\<open>params.NodeConfig\<close> with the fields the sources read. Its declaration is not among
  the sources; the code reads \<^verbatim>\<open>DataDir\<close>, \<^verbatim>\<open>Name\<close>, \<^verbatim>\<open>NetworkID\<close>,
  \<^verbatim>\<open>UpstreamConfig.Enabled\<close>, \<^verbatim>\<open>BootClusterConfig\<close>, \<^verbatim>\<open>LogLevel\<close> and
  \<^verbatim>\<open>LogFile\<close>. \<^verbatim>\<open>NetworkID\<close> is an integer that the code converts with
  \<^verbatim>\<open>int64(...)\<close>. (\<open>BootEnabled\<close> is \<^verbatim>\<open>BootClusterConfig.Enabled\<close>.)
\<close>

record UpstreamRPCConfig =
  Enabled :: bool
  URL :: string

record BootCluster =
  BootEnabled :: bool
  BootNodes :: "string list"

record NodeConfig =
  DataDir :: string
  Name :: string
  NetworkID :: int
  UpstreamConfig :: UpstreamRPCConfig
  BootClusterConfig :: BootCluster
  LogLevel :: string
  LogFile :: string

text \<open>The conversions \<^verbatim>\<open>int64(x)\<close> and \<^verbatim>\<open>uint64(x)\<close>, with the wrap-around.\<close>

definition int64 :: "int \<Rightarrow> int" where
  "int64 x = (x + 2 ^ 63) mod 2 ^ 64 - 2 ^ 63"

definition uint64 :: "nat \<Rightarrow> nat" where
  "uint64 n = n mod 2 ^ 64"

section \<open>The execution policy (package jail)\<close>

datatype address = HexToAddress string

datatype hash = HexToHash string

fun Hex :: "hash \<Rightarrow> string" where
  "Hex (HexToHash h) = h"

type_synonym bytes = string
type_synonym privkey = nat
type_synonym signedtx = nat

text \<open>
  \<^verbatim>\<open>common.RPCCall\<close>: the request, and what its helper methods (which are not among the
  sources) return for it. A \<^verbatim>\<open>*big.Int\<close> is an \<open>int option\<close>, \<open>None\<close> for nil.
\<close>

record RPCCall =
  ID :: jsvalue
  Method :: string
  Params :: "jsvalue list"
  ParseFromAddress :: "goerror + address"
  ParseToAddress :: "goerror + address"
  ParseGas :: "int option"
  ParseData :: bytes
  ParseValue :: "int option"
  ParseGasPrice :: "int option"

text \<open>An argument of an upstream call.\<close>

datatype rpcarg = ArgAddress address | ArgString string

text \<open>
  The RPC client: what the node answers to \<^verbatim>\<open>CallContext\<close> decoding into a
  \<^verbatim>\<open>hexutil.Uint\<close>, to \<^verbatim>\<open>CallContext\<close> decoding into a \<^verbatim>\<open>json.RawMessage\<close>, and to
  \<^verbatim>\<open>Call\<close> decoding into a \<^verbatim>\<open>json.RawMessage\<close> (\<open>None\<close> is the nil message).
\<close>

record RPCClient =
  CallContext_Uint :: "string \<Rightarrow> rpcarg list \<Rightarrow> goerror + nat"
  CallContext_Raw :: "string \<Rightarrow> rpcarg list \<Rightarrow> goerror + string option"
  Call_Raw :: "string \<Rightarrow> jsvalue list \<Rightarrow> goerror + string option"

text \<open>\<^verbatim>\<open>common.NodeManager\<close> and \<^verbatim>\<open>common.AccountManager\<close> as the policy calls them.\<close>

record NodeManagerAPI =
  api_NodeConfig :: "goerror + NodeConfig"
  api_RPCClient :: "goerror + RPCClient"

record SelectedExtKey =
  PrivateKey :: privkey

record AccountManagerAPI =
  SelectedAccount :: "goerror + SelectedExtKey"

text \<open>
  \<^verbatim>\<open>otto.FunctionCall\<close>: the error, if any, of \<^verbatim>\<open>call.Otto.Object\<close> on the response
  literal and on \<^verbatim>\<open>"JSON"\<close>, and the script engine's \<^verbatim>\<open>JSON.parse\<close>.
\<close>

record FunctionCall =
  Otto_Object_response :: "goerror option"
  Otto_Object_JSON :: "goerror option"
  JSON_parse :: "string \<Rightarrow> goerror + jsvalue"

text \<open>\<^verbatim>\<open>types.NewTransaction(nonce, to, amount, gasLimit, gasPrice, data)\<close>.\<close>

record Transaction =
  tx_nonce :: nat
  tx_to :: address
  tx_amount :: "int option"
  tx_gasLimit :: "int option"
  tx_gasPrice :: "int option"
  tx_data :: bytes

definition NewTransaction ::
  "nat \<Rightarrow> address \<Rightarrow> int option \<Rightarrow> int option \<Rightarrow> int option \<Rightarrow> bytes \<Rightarrow> Transaction" where
  "NewTransaction nonce to amount gasLimit gasPrice dat =
     \<lparr>tx_nonce = nonce, tx_to = to, tx_amount = amount, tx_gasLimit = gasLimit,
      tx_gasPrice = gasPrice, tx_data = dat\<rparr>"

text \<open>
  The functions of other packages that the policy calls and that are not among the
  sources: \<^verbatim>\<open>types.SignTx\<close> with \<^verbatim>\<open>types.NewEIP155Signer(chainID)\<close> (the second
  argument is the chain id), \<^verbatim>\<open>rlp.EncodeToBytes\<close>, \<^verbatim>\<open>gethcommon.ToHex\<close>,
  \<^verbatim>\<open>txs.Hash().String()\<close>, and the package's own \<^verbatim>\<open>preProcessRequest\<close> and
  \<^verbatim>\<open>processRPCCall\<close>.
\<close>

record jailenv =
  SignTx :: "Transaction \<Rightarrow> int \<Rightarrow> privkey \<Rightarrow> goerror + signedtx"
  EncodeToBytes :: "signedtx \<Rightarrow> goerror + bytes"
  ToHex :: "bytes \<Rightarrow> string"
  TxHash :: "signedtx \<Rightarrow> string"
  preProcessRequest :: "RPCCall \<Rightarrow> goerror + string"
  processRPCCall :: "RPCCall \<Rightarrow> hash \<times> goerror option"

text \<open>
  What a run does to its collaborators, in order. \<open>CallContext d method args\<close> is an
  upstream call under the deadline \<^verbatim>\<open>time.Now().Add(d)\<close>, \<open>d\<close> in seconds.
\<close>

datatype event =
    CallContext nat string "rpcarg list"
  | SignTx_called Transaction int privkey
  | EncodeToBytes_called signedtx
  | ProcessRPCCall
  | PreProcessRequest
  | Call string "jsvalue list"
  | PostProcessRequest string

definition Minute :: nat where
  "Minute = 60"

fun is_upstream_send :: "event \<Rightarrow> bool" where
  "is_upstream_send (CallContext d method args) = True"
| "is_upstream_send (SignTx_called tx chainID key) = True"
| "is_upstream_send (EncodeToBytes_called txs) = True"
| "is_upstream_send ev = False"

fun is_queue_send :: "event \<Rightarrow> bool" where
  "is_queue_send ProcessRPCCall = True"
| "is_queue_send ev = False"

text \<open>
  Modelled from the spec: \<^verbatim>\<open>newErrorResponse\<close> is called by the policy and is not among
  the sources. The spec's error response is a JSON-RPC 2.0 response with the request id and
  \<^verbatim>\<open>error: {code, message}\<close>.
\<close>

definition newErrorResponse :: "int \<Rightarrow> string \<Rightarrow> jsvalue \<Rightarrow> object" where
  "newErrorResponse code msg reqid =
     [(''jsonrpc'', JSString ''2.0''), (''id'', reqid),
      (''error'', JSObject [(''code'', JSNumber code), (''message'', JSString msg)])]"

text \<open>\<^verbatim>\<open>ExecutionPolicy.ExecuteRemoteSendTransaction\<close>.\<close>

definition ExecuteRemoteSendTransaction ::
  "jailenv \<Rightarrow> NodeManagerAPI \<Rightarrow> AccountManagerAPI \<Rightarrow> RPCCall \<Rightarrow> FunctionCall
     \<Rightarrow> event list \<times> (failure + object)" where
  "ExecuteRemoteSendTransaction env manager account req call =
     (case api_NodeConfig manager of Inl err \<Rightarrow> ([], Inl (Failed err)) | Inr config \<Rightarrow>
     (case SelectedAccount account of Inl err \<Rightarrow> ([], Inl (Failed err)) | Inr selectedAcct \<Rightarrow>
     (case api_RPCClient manager of Inl err \<Rightarrow> ([], Inl (Failed err)) | Inr client \<Rightarrow>
     (case ParseFromAddress req of Inl err \<Rightarrow> ([], Inl (Failed err)) | Inr fromAddr \<Rightarrow>
     (case ParseToAddress req of Inl err \<Rightarrow> ([], Inl (Failed err)) | Inr toAddr \<Rightarrow>
     (let args1 = [ArgAddress fromAddr, ArgString ''latest''];
          tr1 = [CallContext (1 * Minute) ''eth_getTransactionCount'' args1]
      in
     (case CallContext_Uint client ''eth_getTransactionCount'' args1 of
        Inl err \<Rightarrow> (tr1, Inl (Failed err)) | Inr num \<Rightarrow>
     (let nonce = uint64 num;
          gas = ParseGas req;
          dataVal = ParseData req;
          priceVal = ParseValue req;
          gasPrice = ParseGasPrice req;
          chainID = int64 (NetworkID config);
          tx = NewTransaction nonce toAddr priceVal gas gasPrice dataVal;
          tr2 = tr1 @ [SignTx_called tx chainID (PrivateKey selectedAcct)]
      in
     (case SignTx env tx chainID (PrivateKey selectedAcct) of
        Inl err \<Rightarrow> (tr2, Inl (Failed err)) | Inr txs \<Rightarrow>
     (let tr3 = tr2 @ [EncodeToBytes_called txs] in
     (case EncodeToBytes env txs of Inl err \<Rightarrow> (tr3, Inl (Failed err)) | Inr txBytes \<Rightarrow>
     (let args2 = [ArgString (ToHex env txBytes)];
          tr4 = tr3 @ [CallContext (1 * Minute) ''eth_sendRawTransaction'' args2]
      in
     (case CallContext_Raw client ''eth_sendRawTransaction'' args2 of
        Inl err \<Rightarrow> (tr4, Inl (Failed err)) | Inr result \<Rightarrow>
     (case Otto_Object_response call of Some err \<Rightarrow> (tr4, Inl (Failed err)) | None \<Rightarrow>
     (let resp = obj_Set ''id'' (ID req) response_literal;
          resp = obj_Set ''result'' (JSRaw result) resp;
          resp = obj_Set ''hash'' (JSString (TxHash env txs)) resp
      in (tr4, Inr resp))))))))))))))))"

text \<open>
  \<^verbatim>\<open>ExecutionPolicy.ExecuteLocalSendTransaction\<close>. \<^verbatim>\<open>processRPCCall\<close> returns the hash
  and the error together; the result is set before the error is looked at.
\<close>

definition ExecuteLocalSendTransaction ::
  "jailenv \<Rightarrow> NodeManagerAPI \<Rightarrow> RPCCall \<Rightarrow> FunctionCall \<Rightarrow> event list \<times> (failure + object)" where
  "ExecuteLocalSendTransaction env manager req call =
     (case Otto_Object_response call of Some err \<Rightarrow> ([], Inl (Failed err)) | None \<Rightarrow>
     (let resp = obj_Set ''id'' (ID req) response_literal;
          (txHash, err) = processRPCCall env req;
          resp = obj_Set ''result'' (JSString (Hex txHash)) resp
      in
     (case err of
        Some e \<Rightarrow> ([ProcessRPCCall], Inr (newErrorResponse (- 32603) (Error_text e) (ID req)))
      | None \<Rightarrow> ([ProcessRPCCall], Inr resp))))"

text \<open>\<^verbatim>\<open>ExecutionPolicy.ExecuteSendTransaction\<close>.\<close>

definition ExecuteSendTransaction ::
  "jailenv \<Rightarrow> NodeManagerAPI \<Rightarrow> AccountManagerAPI \<Rightarrow> RPCCall \<Rightarrow> FunctionCall
     \<Rightarrow> event list \<times> (failure + object)" where
  "ExecuteSendTransaction env manager account req call =
     (case api_NodeConfig manager of
        Inl err \<Rightarrow> ([], Inl (Failed err))
      | Inr config \<Rightarrow>
          if Enabled (UpstreamConfig config)
          then ExecuteRemoteSendTransaction env manager account req call
          else ExecuteLocalSendTransaction env manager req call)"

text \<open>
  \<^verbatim>\<open>ExecutionPolicy.ExecuteOtherTransaction\<close>. The error of the second
  \<^verbatim>\<open>call.Otto.Object\<close> is dropped by the source (\<^verbatim>\<open>resp, _ :=\<close>), so a failure there
  leaves \<^verbatim>\<open>resp\<close> nil and \<^verbatim>\<open>resp.Set\<close> dereferences it. The type switch on the error of
  \<^verbatim>\<open>client.Call\<close> has the cases nil, \<^verbatim>\<open>rpc.Error\<close> and default.
\<close>

definition ExecuteOtherTransaction ::
  "jailenv \<Rightarrow> NodeManagerAPI \<Rightarrow> RPCCall \<Rightarrow> FunctionCall \<Rightarrow> event list \<times> (failure + object)" where
  "ExecuteOtherTransaction env manager req call =
     (case api_RPCClient manager of Inl err \<Rightarrow> ([], Inl (StopRPCCallError err)) | Inr client \<Rightarrow>
     (case Otto_Object_JSON call of Some err \<Rightarrow> ([], Inl (Failed err)) | None \<Rightarrow>
     (case Otto_Object_response call of Some err \<Rightarrow> ([], Inl NilDereference) | None \<Rightarrow>
     (let resp = obj_Set ''id'' (ID req) response_literal in
     (case preProcessRequest env req of
        Inl err \<Rightarrow> ([PreProcessRequest], Inl (StopRPCCallError err))
      | Inr messageID \<Rightarrow>
     (let resp =
            (case Call_Raw client (Method req) (Params req) of
               Inr result \<Rightarrow>
                 (case result of
                    None \<Rightarrow> obj_Set ''result'' JSNull resp
                  | Some raw \<Rightarrow>
                      (case JSON_parse call raw of
                         Inl callErr \<Rightarrow> newErrorResponse (- 32603) (Error_text callErr) (ID req)
                       | Inr resultVal \<Rightarrow> obj_Set ''result'' resultVal resp))
             | Inl err \<Rightarrow>
                 (case err of
                    RPCError code msg \<Rightarrow>
                      obj_Set ''error''
                        (JSObject [(''code'', JSNumber code),
                                   (''message'', JSString (Error_text err))]) resp
                  | _ \<Rightarrow> newErrorResponse (- 32603) (Error_text err) (ID req)))
      in ([PreProcessRequest, Call (Method req) (Params req), PostProcessRequest messageID],
          Inr resp)))))))"

section \<open>The node manager (package node)\<close>

text \<open>
  The manager's fields without their locks. The geth node, its account manager, the
  services and the RPC client belong to other packages: a node is what the manager
  reads of it (its account manager, and that one's backends of
  \<^verbatim>\<open>keystore.KeyStoreType\<close>), the rest are handles.
\<close>

type_synonym chan = nat

datatype backend = KeyStore nat | OtherBackend nat

record Manager =
  Backends :: "backend list"

record Node =
  node_name :: string
  node_AccountManager :: "Manager option"

type_synonym rpc_Client = nat
type_synonym Whisper = nat
type_synonym LightEthereum = nat

record NodeManager =
  config :: "NodeConfig option"
  node :: "Node option"
  nodeStarted :: "chan option"
  nodeStopped :: "chan option"
  whisperService :: "Whisper option"
  lesService :: "LightEthereum option"
  rpcClient :: "rpc_Client option"

definition ErrNodeExists :: goerror where
  "ErrNodeExists = Error ''node is already running''"

definition ErrNoRunningNode :: goerror where
  "ErrNoRunningNode = Error ''there is no running node''"

definition ErrInvalidWhisperService :: goerror where
  "ErrInvalidWhisperService = Error ''whisper service is unavailable''"

definition ErrInvalidLightEthereumService :: goerror where
  "ErrInvalidLightEthereumService = Error ''LES service is unavailable''"

definition ErrInvalidAccountManager :: goerror where
  "ErrInvalidAccountManager = Error ''could not retrieve account manager''"

definition ErrAccountKeyStoreMissing :: goerror where
  "ErrAccountKeyStoreMissing = Error ''account key store is not set''"

definition ErrRPCClient :: goerror where
  "ErrRPCClient = Error ''failed to init RPC client''"

text \<open>
  Signals (package signal; the envelope types are its constants) and the other things
  the manager does to the outside, in the order in which they happen.
\<close>

datatype sigtype =
  EventNodeStarted | EventNodeCrashed | EventNodeStopped | EventChainDataRemoved

datatype sigevent = NodeCrashEvent string | EmptyEvent

datatype Envelope = Envelope sigtype sigevent

datatype path = filepath_Join "string list"

datatype effect =
    initLog_call NodeConfig
  | MakeNode_call NodeConfig
  | Node_Start_call Node
  | NewClient_call "Node option" UpstreamRPCConfig
  | go_PopulateStaticPeers
  | signal_Send Envelope
  | Node_Stop_call Node
  | os_Stat_call path
  | os_RemoveAll_call path

text \<open>
  What the calls into other packages return: \<^verbatim>\<open>MakeNode\<close>, \<^verbatim>\<open>ethNode.Start()\<close>,
  \<^verbatim>\<open>m.node.Stop()\<close>, \<^verbatim>\<open>rpc.NewClient\<close>, \<^verbatim>\<open>m.node.Service(&x)\<close> for the LES and the
  whisper service, \<^verbatim>\<open>os.Stat\<close> and \<^verbatim>\<open>os.RemoveAll\<close>; and the package's error
  \<^verbatim>\<open>ErrNodeStartFailure\<close>, which is declared in a file that is not among the sources.
\<close>

record nodeenv =
  MakeNode :: "NodeConfig \<Rightarrow> goerror + Node"
  Node_Start :: "Node \<Rightarrow> goerror option"
  Node_Stop :: "Node \<Rightarrow> goerror option"
  rpc_NewClient :: "Node option \<Rightarrow> UpstreamRPCConfig \<Rightarrow> goerror + rpc_Client"
  Service_les :: "Node \<Rightarrow> goerror option"
  Service_whisper :: "Node \<Rightarrow> goerror option"
  os_Stat :: "path \<Rightarrow> goerror option"
  os_RemoveAll :: "path \<Rightarrow> goerror option"
  ErrNodeStartFailure :: goerror

text \<open>
  The state a call runs in: the manager, for every channel made so far whether it is
  closed, the effects so far, whether the goroutine of \<^verbatim>\<open>startNode\<close> is waiting in
  \<^verbatim>\<open>m.node.Wait()\<close>, and the state of \<^verbatim>\<open>nodeStoppedLock\<close>.

  \<^verbatim>\<open>readNodeStopped\<close> holds \<^verbatim>\<open>nodeStoppedLock.RLock\<close> while it waits for the channel, and
  \<^verbatim>\<open>closeNodeStopped\<close> and \<^verbatim>\<open>setNodeStopped\<close> need \<^verbatim>\<open>nodeStoppedLock.Lock\<close>. So
  \<open>stoppedReaders\<close> counts the goroutines that wait in \<^verbatim>\<open>readNodeStopped\<close> with the read
  lock held, and \<open>stoppedWriters\<close> those that wait for the write lock. A
  \<^verbatim>\<open>sync.RWMutex\<close> gives the write lock only when no reader holds the lock, and gives no
  new read lock while a writer waits. The critical sections that do not wait for a channel
  are single steps. The other locks are not part of the state:
  \<^verbatim>\<open>readNodeStarted\<close> holds \<^verbatim>\<open>nodeStartedLock.RLock\<close> in the same way while it waits, and
  what is said below about a call that goes through it is what that one call does on a state
  in which no other call waits there.

  A function that starts a goroutine returns first; the goroutine's body is a function
  of its own, which runs as far as it gets: to its end, to \<^verbatim>\<open>m.node.Wait()\<close>, or to a
  channel or lock it has to wait for. After a \<^verbatim>\<open>Stop\<close> that succeeded two goroutines go
  for \<^verbatim>\<open>nodeStoppedLock\<close>; which of them gets there first is a \<open>schedule\<close>.
\<close>

record world =
  mgr :: NodeManager
  closed :: "bool list"
  trace :: "effect list"
  parked :: bool
  stoppedReaders :: nat
  stoppedWriters :: nat

text \<open>What a call does as seen by its caller: it returns, it never returns, or it panics.\<close>

datatype 'a outcome = Returns 'a | Blocks | Panics

text \<open>
  How far a goroutine got: to its end, to \<^verbatim>\<open>m.node.Wait()\<close>, to a lock it waits for,
  to a channel it waits for (in \<^verbatim>\<open>readNodeStopped\<close>, with the read lock held), or to a
  panic.
\<close>

datatype gstatus = Finished | Parked | WaitsForLock | WaitsForChannel | Panicked

text \<open>
  Which goroutine takes \<^verbatim>\<open>nodeStoppedLock\<close> first after a successful \<^verbatim>\<open>m.node.Stop()\<close>:
  the goroutine of \<^verbatim>\<open>startNode\<close>, which \<^verbatim>\<open>m.node.Wait()\<close> has released and which goes on to
  \<^verbatim>\<open>closeNodeStopped\<close>, or the goroutine of \<^verbatim>\<open>stopNode\<close>, which starts with
  \<^verbatim>\<open>readNodeStopped\<close>.
\<close>

datatype schedule = StartGoroutineFirst | StopGoroutineFirst

definition NewNodeManager :: world where
  "NewNodeManager =
     \<lparr>mgr = \<lparr>config = None, node = None, nodeStarted = None, nodeStopped = None,
             whisperService = None, lesService = None, rpcClient = None\<rparr>,
      closed = [], trace = [], parked = False, stoppedReaders = 0, stoppedWriters = 0\<rparr>"

definition emit :: "effect \<Rightarrow> world \<Rightarrow> world" where
  "emit e w = w\<lparr>trace := trace w @ [e]\<rparr>"

text \<open>\<^verbatim>\<open>make(chan struct{}, 1)\<close>, \<^verbatim>\<open>close(c)\<close> (which panics on a closed channel).\<close>

definition make_chan :: "world \<Rightarrow> chan \<times> world" where
  "make_chan w = (length (closed w), w\<lparr>closed := closed w @ [False]\<rparr>)"

definition is_closed :: "world \<Rightarrow> chan \<Rightarrow> bool" where
  "is_closed w c = (c < length (closed w) \<and> closed w ! c)"

definition close_chan :: "chan \<Rightarrow> world \<Rightarrow> world option" where
  "close_chan c w =
     (if c < length (closed w) \<and> \<not> closed w ! c
      then Some (w\<lparr>closed := (closed w)[c := True]\<rparr>) else None)"

text \<open>The setters and getters of the fields.\<close>

definition setConfig :: "NodeConfig option \<Rightarrow> world \<Rightarrow> world" where
  "setConfig c w = w\<lparr>mgr := (mgr w)\<lparr>config := c\<rparr>\<rparr>"

definition getConfig :: "world \<Rightarrow> NodeConfig option" where
  "getConfig w = config (mgr w)"

definition getUpstreamConfig :: "world \<Rightarrow> UpstreamRPCConfig option" where
  "getUpstreamConfig w = map_option UpstreamConfig (config (mgr w))"

definition setNode :: "Node option \<Rightarrow> world \<Rightarrow> world" where
  "setNode n w = w\<lparr>mgr := (mgr w)\<lparr>node := n\<rparr>\<rparr>"

definition getNode :: "world \<Rightarrow> Node option" where
  "getNode w = node (mgr w)"

definition setNodeStarted :: "chan option \<Rightarrow> world \<Rightarrow> world" where
  "setNodeStarted c w = w\<lparr>mgr := (mgr w)\<lparr>nodeStarted := c\<rparr>\<rparr>"

definition nodeStartedIsNil :: "world \<Rightarrow> bool" where
  "nodeStartedIsNil w = (nodeStarted (mgr w) = None)"

text \<open>
  \<^verbatim>\<open><-m.nodeStarted\<close>: nothing is ever sent on the channel, so the read returns once the
  channel is closed; on a nil channel it never returns.
\<close>

definition readNodeStarted :: "world \<Rightarrow> unit outcome" where
  "readNodeStarted w =
     (case nodeStarted (mgr w) of
        None \<Rightarrow> Blocks
      | Some c \<Rightarrow> if is_closed w c then Returns () else Blocks)"

definition closeNodeStarted :: "world \<Rightarrow> world option" where
  "closeNodeStarted w =
     (case nodeStarted (mgr w) of None \<Rightarrow> None | Some c \<Rightarrow> close_chan c w)"

text \<open>
  The four functions on \<^verbatim>\<open>m.nodeStopped\<close>, with \<^verbatim>\<open>nodeStoppedLock\<close>.
  \<^verbatim>\<open>setNodeStopped\<close> and \<^verbatim>\<open>closeNodeStopped\<close> take the write lock: while a reader holds
  the lock they wait (and count as waiting writers). \<^verbatim>\<open>nodeStoppedIsNil\<close> and
  \<^verbatim>\<open>readNodeStopped\<close> take the read lock: behind a waiting writer they wait.
  \<^verbatim>\<open>readNodeStopped\<close> then reads the channel with the read lock held: if the channel is
  closed it returns and gives the lock back, otherwise it stays there as a reader.
\<close>

definition setNodeStopped :: "chan option \<Rightarrow> world \<Rightarrow> unit outcome \<times> world" where
  "setNodeStopped c w =
     (if 0 < stoppedReaders w then (Blocks, w\<lparr>stoppedWriters := Suc (stoppedWriters w)\<rparr>)
      else (Returns (), w\<lparr>mgr := (mgr w)\<lparr>nodeStopped := c\<rparr>\<rparr>))"

definition nodeStoppedIsNil :: "world \<Rightarrow> bool outcome" where
  "nodeStoppedIsNil w =
     (if 0 < stoppedWriters w then Blocks else Returns (nodeStopped (mgr w) = None))"

definition readNodeStopped :: "world \<Rightarrow> unit outcome \<times> world" where
  "readNodeStopped w =
     (if 0 < stoppedWriters w then (Blocks, w)
      else
       (case nodeStopped (mgr w) of
          None \<Rightarrow> (Blocks, w\<lparr>stoppedReaders := Suc (stoppedReaders w)\<rparr>)
        | Some c \<Rightarrow>
            if is_closed w c then (Returns (), w)
            else (Blocks, w\<lparr>stoppedReaders := Suc (stoppedReaders w)\<rparr>)))"

definition closeNodeStopped :: "world \<Rightarrow> unit outcome \<times> world" where
  "closeNodeStopped w =
     (if 0 < stoppedReaders w then (Blocks, w\<lparr>stoppedWriters := Suc (stoppedWriters w)\<rparr>)
      else
       (case nodeStopped (mgr w) of
          None \<Rightarrow> (Panics, w)
        | Some c \<Rightarrow>
           (case close_chan c w of
              None \<Rightarrow> (Panics, w)
            | Some w \<Rightarrow> (Returns (), w))))"

definition setWhisperService :: "Whisper option \<Rightarrow> world \<Rightarrow> world" where
  "setWhisperService s w = w\<lparr>mgr := (mgr w)\<lparr>whisperService := s\<rparr>\<rparr>"

definition getWhisperService :: "world \<Rightarrow> Whisper option" where
  "getWhisperService w = whisperService (mgr w)"

definition whisperServiceIsNil :: "world \<Rightarrow> bool" where
  "whisperServiceIsNil w = (whisperService (mgr w) = None)"

definition setLesService :: "LightEthereum option \<Rightarrow> world \<Rightarrow> world" where
  "setLesService s w = w\<lparr>mgr := (mgr w)\<lparr>lesService := s\<rparr>\<rparr>"

definition lesServiceIsNil :: "world \<Rightarrow> bool" where
  "lesServiceIsNil w = (lesService (mgr w) = None)"

definition setRPCClient :: "rpc_Client option \<Rightarrow> world \<Rightarrow> world" where
  "setRPCClient c w = w\<lparr>mgr := (mgr w)\<lparr>rpcClient := c\<rparr>\<rparr>"

definition getRPCClient :: "world \<Rightarrow> rpc_Client option" where
  "getRPCClient w = rpcClient (mgr w)"

text \<open>\<^verbatim>\<open>isNodeAvailable\<close>: \<open>None\<close> is the nil error.\<close>

definition isNodeAvailable :: "world \<Rightarrow> goerror option" where
  "isNodeAvailable w =
     (if nodeStartedIsNil w \<or> getNode w = None then Some ErrNoRunningNode else None)"

definition reset :: "world \<Rightarrow> world" where
  "reset w =
     setNode None (setNodeStarted None (setRPCClient None
       (setWhisperService None (setLesService None (setConfig None w)))))"

text \<open>
  \<^verbatim>\<open>startNode\<close> up to its \<^verbatim>\<open>return\<close>: the result, the goroutine it has started (the node
  and the configuration the closure holds) if any, and the state. The \<^verbatim>\<open>return\<close> reads
  \<^verbatim>\<open>m.nodeStarted\<close>, here before the goroutine has run. A configuration is a value, so the
  nil pointer is not among the inputs.
\<close>

definition startNode ::
  "nodeenv \<Rightarrow> NodeConfig \<Rightarrow> world \<Rightarrow> (goerror + chan option) \<times> (Node \<times> NodeConfig) option \<times> world" where
  "startNode env cfg w =
     (if getNode w \<noteq> None \<or> \<not> nodeStartedIsNil w then (Inl ErrNodeExists, None, w)
      else
       (let w = emit (initLog_call cfg) w;
            w = emit (MakeNode_call cfg) w
        in
       (case MakeNode env cfg of
          Inl err \<Rightarrow> (Inl err, None, w)
        | Inr ethNode \<Rightarrow>
           (let (c, w) = make_chan w;
                w = setNodeStarted (Some c) w
            in (Inr (nodeStarted (mgr w)), Some (ethNode, cfg), w)))))"

text \<open>
  The goroutine of \<^verbatim>\<open>startNode\<close>, up to its end or to \<^verbatim>\<open>m.node.Wait()\<close> (which
  dereferences \<^verbatim>\<open>m.node\<close>). The reason of the first crash signal is
  \<^verbatim>\<open>fmt.Errorf("%v: %v", ErrNodeStartFailure, err).Error()\<close>. Closing the nil channel or
  a closed channel panics, and so does reading the configuration through the nil pointer.
\<close>

definition startNode_goroutine :: "nodeenv \<Rightarrow> Node \<times> NodeConfig \<Rightarrow> world \<Rightarrow> gstatus \<times> world" where
  "startNode_goroutine env task w =
     (let ethNode = fst task; cfg = snd task;
          w = emit (Node_Start_call ethNode) w
      in
     (case Node_Start env ethNode of
        Some err \<Rightarrow>
         (case closeNodeStarted w of
            None \<Rightarrow> (Panicked, w)
          | Some w \<Rightarrow>
             (let w = setNodeStarted None w;
                  w = emit (signal_Send (Envelope EventNodeCrashed
                        (NodeCrashEvent
                           (Error_text (ErrNodeStartFailure env) @ '': '' @ Error_text err)))) w
              in (Finished, w)))
      | None \<Rightarrow>
         (let w = setNode (Some ethNode) w;
              (c, w) = make_chan w
          in
         (case setNodeStopped (Some c) w of
            (Blocks, w) \<Rightarrow> (WaitsForLock, w)
          | (Panics, w) \<Rightarrow> (Panicked, w)
          | (Returns u, w) \<Rightarrow>
         (let w = setConfig (Some cfg) w in
         (case getUpstreamConfig w of
            None \<Rightarrow> (Panicked, w)
          | Some upstream \<Rightarrow>
             (let w = emit (NewClient_call (getNode w) upstream) w in
             (case rpc_NewClient env (getNode w) upstream of
                Inl err \<Rightarrow>
                 (let w = emit (signal_Send (Envelope EventNodeCrashed
                            (NodeCrashEvent (Error_text ErrRPCClient)))) w
                  in (Finished, w))
              | Inr client \<Rightarrow>
                 (let w = setRPCClient (Some client) w;
                      w = emit go_PopulateStaticPeers w
                  in
                 (case closeNodeStarted w of
                    None \<Rightarrow> (Panicked, w)
                  | Some w \<Rightarrow>
                     (let w = emit (signal_Send (Envelope EventNodeStarted EmptyEvent)) w
                      in
                     (case node (mgr w) of
                        None \<Rightarrow> (Panicked, w)
                      | Some n \<Rightarrow> (Parked, w\<lparr>parked := True\<rparr>)))))))))))))"

text \<open>
  The rest of that goroutine, once \<^verbatim>\<open>m.node.Wait()\<close> has returned: it ends after
  \<^verbatim>\<open>closeNodeStopped\<close>, or waits there for the write lock.
\<close>

definition startNode_goroutine_resume :: "world \<Rightarrow> gstatus \<times> world" where
  "startNode_goroutine_resume w =
     (case closeNodeStopped w of
        (Returns u, w) \<Rightarrow> (Finished, w\<lparr>parked := False\<rparr>)
      | (Blocks, w) \<Rightarrow> (WaitsForLock, w\<lparr>parked := False\<rparr>)
      | (Panics, w) \<Rightarrow> (Panicked, w\<lparr>parked := False\<rparr>))"

text \<open>
  \<^verbatim>\<open>m.node.Wait()\<close> returns: the goroutine of \<^verbatim>\<open>startNode\<close>, if it waits there, goes on.
\<close>

definition node_Wait_returns :: "world \<Rightarrow> world" where
  "node_Wait_returns w = (if parked w then snd (startNode_goroutine_resume w) else w)"

definition StartNode ::
  "nodeenv \<Rightarrow> NodeConfig \<Rightarrow> world \<Rightarrow> (goerror + chan option) \<times> (Node \<times> NodeConfig) option \<times> world" where
  "StartNode env cfg w = startNode env cfg w"

text \<open>
  \<^verbatim>\<open>StartNode\<close> followed by the goroutine it has started: the result of \<^verbatim>\<open>StartNode\<close>,
  how far the goroutine got, and the state then.
\<close>

definition StartNode_and_goroutine ::
  "nodeenv \<Rightarrow> NodeConfig \<Rightarrow> world \<Rightarrow> (goerror + chan option) \<times> gstatus option \<times> world" where
  "StartNode_and_goroutine env cfg w =
     (case StartNode env cfg w of
        (r, None, w) \<Rightarrow> (r, None, w)
      | (r, Some task, w) \<Rightarrow>
          (case startNode_goroutine env task w of (st, w) \<Rightarrow> (r, Some st, w)))"

text \<open>
  The goroutine of \<^verbatim>\<open>stopNode\<close> for its channel \<open>c\<close>. After \<^verbatim>\<open>readNodeStopped\<close> it
  resets the manager, closes \<open>c\<close> and signals that the node has stopped
  (\<open>stopNode_goroutine_rest\<close>). If \<^verbatim>\<open>readNodeStopped\<close> does not return at once, the
  goroutine waits there, for the read lock or, with the read lock held, for the channel;
  \<open>stopNode_goroutine_resume\<close> is how it goes on from the channel read: only once
  \<^verbatim>\<open>m.nodeStopped\<close> is closed, and then it gives the read lock back.
\<close>

definition stopNode_goroutine_rest :: "chan \<Rightarrow> world \<Rightarrow> gstatus \<times> world" where
  "stopNode_goroutine_rest c w =
     (let w = reset w in
     (case close_chan c w of
        None \<Rightarrow> (Panicked, w)
      | Some w \<Rightarrow> (Finished, emit (signal_Send (Envelope EventNodeStopped EmptyEvent)) w)))"

definition stopNode_goroutine :: "chan \<Rightarrow> world \<Rightarrow> gstatus \<times> world" where
  "stopNode_goroutine c w =
     (case readNodeStopped w of
        (Returns u, w') \<Rightarrow> stopNode_goroutine_rest c w'
      | (Blocks, w') \<Rightarrow>
          (if 0 < stoppedWriters w then WaitsForLock else WaitsForChannel, w')
      | (Panics, w') \<Rightarrow> (Panicked, w'))"

definition stopNode_goroutine_resume :: "chan \<Rightarrow> world \<Rightarrow> gstatus \<times> world" where
  "stopNode_goroutine_resume c w =
     (case nodeStopped (mgr w) of
        None \<Rightarrow> (WaitsForChannel, w)
      | Some d \<Rightarrow>
          if is_closed w d
          then stopNode_goroutine_rest c (w\<lparr>stoppedReaders := stoppedReaders w - 1\<rparr>)
          else (WaitsForChannel, w))"

text \<open>
  \<^verbatim>\<open>stopNode\<close> up to its \<^verbatim>\<open>return\<close>. The goroutine it starts is \<open>stopNode_goroutine\<close>
  for the channel it returns. Calling \<^verbatim>\<open>Stop\<close> on the nil node dereferences it.
\<close>

definition stopNode :: "nodeenv \<Rightarrow> world \<Rightarrow> (goerror + chan) outcome \<times> world" where
  "stopNode env w =
     (case node (mgr w) of
        None \<Rightarrow> (Panics, w)
      | Some n \<Rightarrow>
         (let w = emit (Node_Stop_call n) w in
         (case Node_Stop env n of
            Some err \<Rightarrow> (Returns (Inl err), w)
          | None \<Rightarrow>
             (let (c, w) = make_chan w
              in (Returns (Inr c), w)))))"

text \<open>
  What the goroutines do after a \<^verbatim>\<open>stopNode\<close> that returned the channel \<open>c\<close>. The
  \<^verbatim>\<open>Stop\<close> has succeeded, so \<^verbatim>\<open>m.node.Wait()\<close> returns, and the goroutine of
  \<^verbatim>\<open>startNode\<close> and the goroutine of \<^verbatim>\<open>stopNode\<close> both run, in the order of the
  schedule. When the goroutine of \<^verbatim>\<open>stopNode\<close> is first and has to wait for the channel,
  it goes on after the other one, if the channel is closed then. (A \<^verbatim>\<open>Stop\<close> that
  returns an error starts no goroutine and is taken to leave the node running.)
\<close>

definition after_stopNode :: "schedule \<Rightarrow> chan \<Rightarrow> world \<Rightarrow> world" where
  "after_stopNode sched c w =
     (case sched of
        StartGoroutineFirst \<Rightarrow> snd (stopNode_goroutine c (node_Wait_returns w))
      | StopGoroutineFirst \<Rightarrow>
         (case stopNode_goroutine c w of
            (st, w) \<Rightarrow>
             (let w = node_Wait_returns w in
              if st = WaitsForChannel then snd (stopNode_goroutine_resume c w) else w)))"

definition StopNode :: "nodeenv \<Rightarrow> world \<Rightarrow> (goerror + chan) outcome \<times> world" where
  "StopNode env w =
     (case isNodeAvailable w of
        Some err \<Rightarrow> (Returns (Inl err), w)
      | None \<Rightarrow>
         (case nodeStoppedIsNil w of
            Blocks \<Rightarrow> (Blocks, w)
          | Panics \<Rightarrow> (Panics, w)
          | Returns isNil \<Rightarrow>
              if isNil then (Returns (Inl ErrNoRunningNode), w)
              else
               (case readNodeStarted w of
                  Returns u \<Rightarrow> stopNode env w
                | Blocks \<Rightarrow> (Blocks, w)
                | Panics \<Rightarrow> (Panics, w))))"

text \<open>\<^verbatim>\<open>IsNodeRunning\<close> and the accessors. A pointer result is an option, \<open>None\<close> for nil.\<close>

definition IsNodeRunning :: "world \<Rightarrow> bool outcome" where
  "IsNodeRunning w =
     (case isNodeAvailable w of
        Some err \<Rightarrow> Returns False
      | None \<Rightarrow>
         (case readNodeStarted w of
            Returns u \<Rightarrow> Returns True
          | Blocks \<Rightarrow> Blocks
          | Panics \<Rightarrow> Panics))"

definition Node :: "world \<Rightarrow> (goerror + Node option) outcome" where
  "Node w =
     (case isNodeAvailable w of
        Some err \<Rightarrow> Returns (Inl err)
      | None \<Rightarrow>
         (case readNodeStarted w of
            Returns u \<Rightarrow> Returns (Inr (getNode w))
          | Blocks \<Rightarrow> Blocks
          | Panics \<Rightarrow> Panics))"

definition NodeConfig :: "world \<Rightarrow> (goerror + NodeConfig option) outcome" where
  "NodeConfig w =
     (case isNodeAvailable w of
        Some err \<Rightarrow> Returns (Inl err)
      | None \<Rightarrow>
         (case readNodeStarted w of
            Returns u \<Rightarrow> Returns (Inr (config (mgr w)))
          | Blocks \<Rightarrow> Blocks
          | Panics \<Rightarrow> Panics))"

definition LightEthereumService :: "nodeenv \<Rightarrow> world \<Rightarrow> (goerror + LightEthereum option) outcome" where
  "LightEthereumService env w =
     (case isNodeAvailable w of
        Some err \<Rightarrow> Returns (Inl err)
      | None \<Rightarrow>
         (case readNodeStarted w of
            Blocks \<Rightarrow> Blocks
          | Panics \<Rightarrow> Panics
          | Returns u \<Rightarrow>
             (case (if lesServiceIsNil w
                    then (case node (mgr w) of
                            None \<Rightarrow> Panics
                          | Some n \<Rightarrow> Returns (Service_les env n))
                    else Returns None) of
                Panics \<Rightarrow> Panics
              | Blocks \<Rightarrow> Blocks
              | Returns (Some err) \<Rightarrow> Returns (Inl ErrInvalidLightEthereumService)
              | Returns None \<Rightarrow>
                  if lesServiceIsNil w then Returns (Inl ErrInvalidLightEthereumService)
                  else Returns (Inr (lesService (mgr w))))))"

definition WhisperService :: "nodeenv \<Rightarrow> world \<Rightarrow> (goerror + Whisper option) outcome" where
  "WhisperService env w =
     (case isNodeAvailable w of
        Some err \<Rightarrow> Returns (Inl err)
      | None \<Rightarrow>
         (case readNodeStarted w of
            Blocks \<Rightarrow> Blocks
          | Panics \<Rightarrow> Panics
          | Returns u \<Rightarrow>
             (case (if whisperServiceIsNil w
                    then (case node (mgr w) of
                            None \<Rightarrow> Panics
                          | Some n \<Rightarrow> Returns (Service_whisper env n))
                    else Returns None) of
                Panics \<Rightarrow> Panics
              | Blocks \<Rightarrow> Blocks
              | Returns (Some err) \<Rightarrow> Returns (Inl ErrInvalidWhisperService)
              | Returns None \<Rightarrow>
                  if getWhisperService w = None then Returns (Inl ErrInvalidWhisperService)
                  else Returns (Inr (whisperService (mgr w))))))"

definition AccountManager :: "world \<Rightarrow> (goerror + Manager option) outcome" where
  "AccountManager w =
     (case isNodeAvailable w of
        Some err \<Rightarrow> Returns (Inl err)
      | None \<Rightarrow>
         (case readNodeStarted w of
            Blocks \<Rightarrow> Blocks
          | Panics \<Rightarrow> Panics
          | Returns u \<Rightarrow>
             (case node (mgr w) of
                None \<Rightarrow> Panics
              | Some n \<Rightarrow>
                 (case node_AccountManager n of
                    None \<Rightarrow> Returns (Inl ErrInvalidAccountManager)
                  | Some accountManager \<Rightarrow> Returns (Inr (Some accountManager))))))"

definition AccountKeyStore :: "world \<Rightarrow> (goerror + nat option) outcome" where
  "AccountKeyStore w =
     (case isNodeAvailable w of
        Some err \<Rightarrow> Returns (Inl err)
      | None \<Rightarrow>
         (case readNodeStarted w of
            Blocks \<Rightarrow> Blocks
          | Panics \<Rightarrow> Panics
          | Returns u \<Rightarrow>
             (case node (mgr w) of
                None \<Rightarrow> Panics
              | Some n \<Rightarrow>
                 (case node_AccountManager n of
                    None \<Rightarrow> Returns (Inl ErrInvalidAccountManager)
                  | Some accountManager \<Rightarrow>
                     (case Backends accountManager of
                        [] \<Rightarrow> Returns (Inl ErrAccountKeyStoreMissing)
                      | KeyStore keyStore # rest \<Rightarrow> Returns (Inr (Some keyStore))
                      | OtherBackend b # rest \<Rightarrow> Returns (Inl ErrAccountKeyStoreMissing))))))"

definition RPCClient :: "world \<Rightarrow> rpc_Client option" where
  "RPCClient w = getRPCClient w"

text \<open>
  \<^verbatim>\<open>resetChainData\<close> up to its \<^verbatim>\<open>return\<close>: the result, the goroutine that the final
  \<^verbatim>\<open>startNode\<close> has started if any, and the state. At \<^verbatim>\<open><-nodeStopped\<close> (here
  \<open>stopped\<close>, the channel \<^verbatim>\<open>stopNode\<close> returned) the call waits while the two
  goroutines run in the order of the schedule; the read returns if they have closed the
  channel, and never returns otherwise.
\<close>

definition resetChainData ::
  "schedule \<Rightarrow> nodeenv \<Rightarrow> world
     \<Rightarrow> (goerror + chan option) outcome \<times> (Node \<times> NodeConfig) option \<times> world" where
  "resetChainData sched env w =
     (let prevConfig = getConfig w in
     (case stopNode env w of
        (Panics, w) \<Rightarrow> (Panics, None, w)
      | (Blocks, w) \<Rightarrow> (Blocks, None, w)
      | (Returns (Inl err), w) \<Rightarrow> (Returns (Inl err), None, w)
      | (Returns (Inr stopped), w) \<Rightarrow>
         (let w = after_stopNode sched stopped w in
          if \<not> is_closed w stopped then (Blocks, None, w)
          else
           (case prevConfig of
              None \<Rightarrow> (Panics, None, w)
            | Some prevConfig \<Rightarrow>
               (let chainDataDir =
                      filepath_Join [DataDir prevConfig, Name prevConfig, ''lightchaindata''];
                    w = emit (os_Stat_call chainDataDir) w
                in
               (case (case os_Stat env chainDataDir of
                        None \<Rightarrow> None
                      | Some err \<Rightarrow> if os_IsNotExist err then Some err else None) of
                  Some err \<Rightarrow> (Returns (Inl err), None, w)
                | None \<Rightarrow>
                   (let w = emit (os_RemoveAll_call chainDataDir) w in
                   (case os_RemoveAll env chainDataDir of
                      Some err \<Rightarrow> (Returns (Inl err), None, w)
                    | None \<Rightarrow>
                       (let w = emit (signal_Send (Envelope EventChainDataRemoved EmptyEvent)) w
                        in
                       (case startNode env prevConfig w of
                          (r, task, w) \<Rightarrow> (Returns r, task, w)))))))))))"

definition ResetChainData ::
  "schedule \<Rightarrow> nodeenv \<Rightarrow> world
     \<Rightarrow> (goerror + chan option) outcome \<times> (Node \<times> NodeConfig) option \<times> world" where
  "ResetChainData sched env w =
     (case isNodeAvailable w of
        Some err \<Rightarrow> (Returns (Inl err), None, w)
      | None \<Rightarrow>
         (case readNodeStarted w of
            Returns u \<Rightarrow> resetChainData sched env w
          | Blocks \<Rightarrow> (Blocks, None, w)
          | Panics \<Rightarrow> (Panics, None, w)))"

text \<open>
  A running node, as \<^verbatim>\<open>StartNode\<close> and its goroutine leave it when everything succeeds:
  node, configuration and both channels are set, the started channel is closed, the stopped
  channel is open, the goroutine of \<^verbatim>\<open>startNode\<close> waits in \<^verbatim>\<open>m.node.Wait()\<close>, and no
  goroutine holds or waits for \<^verbatim>\<open>nodeStoppedLock\<close>.
\<close>

definition running :: "world \<Rightarrow> bool" where
  "running w =
     (case node (mgr w) of
        None \<Rightarrow> False
      | Some n \<Rightarrow>
         (case nodeStarted (mgr w) of
            None \<Rightarrow> False
          | Some c \<Rightarrow>
             (case nodeStopped (mgr w) of
                None \<Rightarrow> False
              | Some d \<Rightarrow>
                  is_closed w c \<and> d < length (closed w) \<and> \<not> closed w ! d \<and> parked w
                  \<and> config (mgr w) \<noteq> None
                  \<and> stoppedReaders w = 0 \<and> stoppedWriters w = 0)))"


text \<open>The chain data directory of a configuration, as \<^verbatim>\<open>resetChainData\<close> joins it.\<close>

definition chainDataDir :: "NodeConfig \<Rightarrow> path" where
  "chainDataDir cfg = filepath_Join [DataDir cfg, Name cfg, ''lightchaindata'']"

section \<open>Concrete inputs\<close>

text \<open>Inputs at which the theorems below are evaluated.\<close>

definition ex_config :: NodeConfig where
  "ex_config =
     \<lparr>DataDir = ''/data'', Name = ''StatusIM'', NetworkID = 3,
      UpstreamConfig = \<lparr>Enabled = True, URL = ''https://ropsten.infura.io''\<rparr>,
      BootClusterConfig = \<lparr>BootEnabled = False, BootNodes = []\<rparr>,
      LogLevel = ''INFO'', LogFile = []\<rparr>"

definition ex_client :: RPCClient where
  "ex_client =
     \<lparr>CallContext_Uint = (\<lambda>method args. Inr 5),
      CallContext_Raw = (\<lambda>method args. Inr (Some ''0x9f'')),
      Call_Raw = (\<lambda>method ps. Inr None)\<rparr>"

definition ex_manager :: NodeManagerAPI where
  "ex_manager = \<lparr>api_NodeConfig = Inr ex_config, api_RPCClient = Inr ex_client\<rparr>"

definition ex_account :: AccountManagerAPI where
  "ex_account = \<lparr>SelectedAccount = Inr \<lparr>PrivateKey = 42\<rparr>\<rparr>"

definition ex_call :: FunctionCall where
  "ex_call =
     \<lparr>Otto_Object_response = None, Otto_Object_JSON = None,
      JSON_parse = (\<lambda>raw. Inr (JSString raw))\<rparr>"

definition ex_env :: jailenv where
  "ex_env =
     \<lparr>SignTx = (\<lambda>tx chainID key. Inr 1),
      EncodeToBytes = (\<lambda>txs. Inr ''f86b''),
      ToHex = (\<lambda>b. ''0x'' @ b),
      TxHash = (\<lambda>txs. ''0x9f''),
      preProcessRequest = (\<lambda>req. Inr ''1''),
      processRPCCall = (\<lambda>req. (HexToHash ''0x77'', None))\<rparr>"

definition ex_send :: RPCCall where
  "ex_send =
     \<lparr>ID = JSNumber 7, Method = ''eth_sendTransaction'', Params = [],
      ParseFromAddress = Inr (HexToAddress ''0xaa''),
      ParseToAddress = Inr (HexToAddress ''0xbb''),
      ParseGas = Some 21000, ParseData = [], ParseValue = Some 1,
      ParseGasPrice = Some 2\<rparr>"

definition ex_receipt :: RPCCall where
  "ex_receipt =
     \<lparr>ID = JSNumber 7, Method = ''eth_getTransactionReceipt'',
      Params = [JSString ''0xbbebf28d0a3a3cbb38e6053a5b21f08f82c62b0c145a17b1c4313cac3f68ae7c''],
      ParseFromAddress = Inl (Error ''invalid from address''),
      ParseToAddress = Inl (Error ''invalid to address''),
      ParseGas = None, ParseData = [], ParseValue = None, ParseGasPrice = None\<rparr>"

definition ex_node :: Node where
  "ex_node =
     \<lparr>node_name = ''StatusIM'', node_AccountManager = Some \<lparr>Backends = [KeyStore 0]\<rparr>\<rparr>"

definition ex_nodeenv :: nodeenv where
  "ex_nodeenv =
     \<lparr>MakeNode = (\<lambda>cfg. Inr ex_node),
      Node_Start = (\<lambda>n. None),
      Node_Stop = (\<lambda>n. None),
      rpc_NewClient = (\<lambda>n upstream. Inr 1),
      Service_les = (\<lambda>n. None),
      Service_whisper = (\<lambda>n. None),
      os_Stat = (\<lambda>p. None),
      os_RemoveAll = (\<lambda>p. None),
      ErrNodeStartFailure = Error ''error starting p2p node''\<rparr>"

text \<open>
  The state after \<open>StartNode_and_goroutine ex_nodeenv ex_config NewNodeManager\<close> (lemma
  \<open>StartNode_ex\<close>).
\<close>

definition ex_running :: world where
  "ex_running =
     \<lparr>mgr = \<lparr>config = Some ex_config, node = Some ex_node, nodeStarted = Some 0,
             nodeStopped = Some 1, whisperService = None, lesService = None,
             rpcClient = Some 1\<rparr>,
      closed = [True, False],
      trace = [initLog_call ex_config, MakeNode_call ex_config, Node_Start_call ex_node,
               NewClient_call (Some ex_node) (UpstreamConfig ex_config), go_PopulateStaticPeers,
               signal_Send (Envelope EventNodeStarted EmptyEvent)],
      parked = True, stoppedReaders = 0, stoppedWriters = 0\<rparr>"

section \<open>Theorems\<close>

subsection \<open>Message status\<close>

lemmas status_defs =
  PendingStatus_def QueuedStatus_def CachedStatus_def SentStatus_def ExpiredStatus_def
  ResendStatus_def FutureStatus_def LowPowStatus_def InvalidAESStatus_def
  OversizedMessageStatus_def OversizedVersionStatus_def RejectedStatus_def
  DeliveredStatus_def

lemma declared_statuses_range: "s \<in> set declared_statuses \<longleftrightarrow> 0 \<le> s \<and> s \<le> 12"
  unfolding declared_statuses_def status_defs by (simp; presburger)

lemma Status_String_unknown_iff:
  "Status_String s = ''unknown'' \<longleftrightarrow> s = CachedStatus \<or> s < 0 \<or> 12 < s"
proof -
  have "s < 0 \<or> s = 0 \<or> s = 1 \<or> s = 2 \<or> s = 3 \<or> s = 4 \<or> s = 5 \<or> s = 6
    \<or> s = 7 \<or> s = 8 \<or> s = 9 \<or> s = 10 \<or> s = 11 \<or> s = 12 \<or> 12 < s"
    by presburger
  then show ?thesis
    by (elim disjE) (simp_all add: Status_String_def status_defs)
qed

text \<open>
  Claim C10. \<^verbatim>\<open>Status.String\<close> returns a name for every \<^verbatim>\<open>Status\<close> value (the model
  is a total function with no failing branch, as the Go switch is). The name is
  \<^verbatim>\<open>"unknown"\<close> exactly for \<^verbatim>\<open>CachedStatus\<close> and for the values that are not declared
  constants; the twelve other declared constants have pairwise distinct names.
\<close>

theorem Status_String_total_unknown_distinct:
  "(Status_String s = ''unknown'' \<longleftrightarrow> s = CachedStatus \<or> s \<notin> set declared_statuses)
   \<and> Status_String CachedStatus = ''unknown''
   \<and> distinct (map Status_String (removeAll CachedStatus declared_statuses))
   \<and> length (removeAll CachedStatus declared_statuses) = 12"
proof -
  have a: "Status_String s = ''unknown'' \<longleftrightarrow> s = CachedStatus \<or> s \<notin> set declared_statuses"
    unfolding Status_String_unknown_iff declared_statuses_range by auto
  have b: "Status_String CachedStatus = ''unknown''"
    by (simp add: Status_String_def status_defs)
  have c: "removeAll CachedStatus declared_statuses =
      [PendingStatus, QueuedStatus, SentStatus, ExpiredStatus, ResendStatus,
       FutureStatus, LowPowStatus, InvalidAESStatus, OversizedMessageStatus,
       OversizedVersionStatus, RejectedStatus, DeliveredStatus]"
    by (simp add: declared_statuses_def status_defs)
  have d: "distinct (map Status_String (removeAll CachedStatus declared_statuses))"
    unfolding c by (simp add: Status_String_def status_defs)
  have e: "length (removeAll CachedStatus declared_statuses) = 12"
    unfolding c by simp
  from a b d e show ?thesis by blast
qed


subsection \<open>The execution policy\<close>

lemma upstream_not_queue: "is_upstream_send ev \<Longrightarrow> \<not> is_queue_send ev"
  by (cases ev) simp_all

lemma ExecuteRemoteSendTransaction_trace:
  "list_all is_upstream_send (fst (ExecuteRemoteSendTransaction env manager account req call))"
  by (simp add: ExecuteRemoteSendTransaction_def Let_def split: sum.split option.split)

text \<open>
  The Remote Send path returns a response only after all four steps: the two upstream
  calls, in this order, with the signing and the encoding in between.
\<close>

lemma ExecuteRemoteSendTransaction_response_after_all_steps:
  assumes "snd (ExecuteRemoteSendTransaction env manager account req call) = Inr resp"
  shows "map (\<lambda>ev. case ev of CallContext d method args \<Rightarrow> method | _ \<Rightarrow> [])
           (fst (ExecuteRemoteSendTransaction env manager account req call)) =
         [''eth_getTransactionCount'', [], [], ''eth_sendRawTransaction'']"
  using assms
  by (auto simp: ExecuteRemoteSendTransaction_def Let_def split: sum.splits option.splits)

lemma ExecuteLocalSendTransaction_trace:
  "list_all is_queue_send (fst (ExecuteLocalSendTransaction env manager req call))"
  by (simp add: ExecuteLocalSendTransaction_def Let_def split: sum.split option.split prod.split)

lemma upstream_only_no_queue: "list_all is_upstream_send tr \<Longrightarrow> \<not> list_ex is_queue_send tr"
  by (induction tr) (auto dest: upstream_not_queue)

lemma queue_only_no_upstream: "list_all is_queue_send tr \<Longrightarrow> \<not> list_ex is_upstream_send tr"
  by (induction tr) (auto dest: upstream_not_queue)

lemma response_error_newErrorResponse:
  "response_error (newErrorResponse code msg reqid) = Some (code, msg)"
  by (simp add: response_error_def newErrorResponse_def)

lemma int64_in_range: "- (2 ^ 63) \<le> x \<Longrightarrow> x < 2 ^ 63 \<Longrightarrow> int64 x = x"
  by (simp add: int64_def)

text \<open>
  Claim C3. \<^verbatim>\<open>ExecuteSendTransaction\<close> returns the error of \<^verbatim>\<open>manager.NodeConfig()\<close> when
  there is one, with nothing done by either path (no effect at all); otherwise it is the
  Remote Send path when \<^verbatim>\<open>UpstreamConfig.Enabled\<close> is true, and then nothing touches the
  transaction queue, and the Local Send path when it is false, and then there is no
  upstream call, signing or encoding.
\<close>

theorem ExecuteSendTransaction_dispatch:
  "(case api_NodeConfig manager of
      Inl err \<Rightarrow> ExecuteSendTransaction env manager account req call = ([], Inl (Failed err))
    | Inr cfg \<Rightarrow>
        if Enabled (UpstreamConfig cfg)
        then ExecuteSendTransaction env manager account req call =
               ExecuteRemoteSendTransaction env manager account req call
             \<and> \<not> list_ex is_queue_send (fst (ExecuteSendTransaction env manager account req call))
        else ExecuteSendTransaction env manager account req call =
               ExecuteLocalSendTransaction env manager req call
             \<and> \<not> list_ex is_upstream_send
                   (fst (ExecuteSendTransaction env manager account req call)))"
  using upstream_only_no_queue [OF ExecuteRemoteSendTransaction_trace]
    queue_only_no_upstream [OF ExecuteLocalSendTransaction_trace]
  by (simp add: ExecuteSendTransaction_def split: sum.split)

text \<open>
  Claim C4, as stated, fails: with a configuration, a selected account and a client at
  hand, a request whose \<^verbatim>\<open>to\<close> address does not parse is answered with that error before
  any upstream call is made (the run has no effect).
\<close>

theorem ExecuteRemoteSendTransaction_unparsed_to_counterexample:
  "api_NodeConfig ex_manager = Inr ex_config
   \<and> SelectedAccount ex_account = Inr \<lparr>PrivateKey = 42\<rparr>
   \<and> api_RPCClient ex_manager = Inr ex_client
   \<and> ExecuteRemoteSendTransaction ex_env ex_manager ex_account
        (ex_send\<lparr>ParseToAddress := Inl (Error ''invalid to address'')\<rparr>) ex_call
      = ([], Inl (Failed (Error ''invalid to address'')))"
  by (simp add: ExecuteRemoteSendTransaction_def ex_manager_def ex_account_def ex_send_def)

text \<open>
  Claim C4, amended. When the configuration, the selected account and the client are at
  hand, both addresses parse, both upstream calls succeed, signing and encoding succeed and
  the response object can be made, the Remote Send path does exactly this, in this order:
  \<^verbatim>\<open>eth_getTransactionCount(from, "latest")\<close> under a deadline of 60 seconds; signing of the
  transaction made of that nonce, the \<^verbatim>\<open>to\<close> address and the request's value, gas, gas
  price and data, with the selected account's private key and the EIP-155 chain id
  \<^verbatim>\<open>int64(NetworkID)\<close>; RLP encoding; \<^verbatim>\<open>eth_sendRawTransaction\<close> of the hex of the
  encoding under a deadline of 60 seconds. It returns the response with, in this order,
  \<^verbatim>\<open>jsonrpc\<close>, the request id under \<^verbatim>\<open>id\<close>, the remote result under \<^verbatim>\<open>result\<close> and
  the hash of the signed transaction under \<^verbatim>\<open>hash\<close>.
\<close>

theorem ExecuteRemoteSendTransaction_steps:
  assumes "api_NodeConfig manager = Inr cfg"
    and "SelectedAccount account = Inr selectedAcct"
    and "api_RPCClient manager = Inr client"
    and "ParseFromAddress req = Inr fromAddr"
    and "ParseToAddress req = Inr toAddr"
    and "CallContext_Uint client ''eth_getTransactionCount''
           [ArgAddress fromAddr, ArgString ''latest''] = Inr num"
    and "tx = NewTransaction (uint64 num) toAddr (ParseValue req) (ParseGas req)
           (ParseGasPrice req) (ParseData req)"
    and "SignTx env tx (int64 (NetworkID cfg)) (PrivateKey selectedAcct) = Inr txs"
    and "EncodeToBytes env txs = Inr txBytes"
    and "CallContext_Raw client ''eth_sendRawTransaction'' [ArgString (ToHex env txBytes)]
           = Inr result"
    and "Otto_Object_response call = None"
  shows "ExecuteRemoteSendTransaction env manager account req call =
     ([CallContext 60 ''eth_getTransactionCount'' [ArgAddress fromAddr, ArgString ''latest''],
       SignTx_called tx (int64 (NetworkID cfg)) (PrivateKey selectedAcct),
       EncodeToBytes_called txs,
       CallContext 60 ''eth_sendRawTransaction'' [ArgString (ToHex env txBytes)]],
      Inr [(''jsonrpc'', JSString ''2.0''), (''id'', ID req), (''result'', JSRaw result),
           (''hash'', JSString (TxHash env txs))])"
  using assms
  by (simp add: ExecuteRemoteSendTransaction_def Let_def Minute_def response_literal_def)

theorem ExecuteRemoteSendTransaction_steps_witness:
  "ExecuteRemoteSendTransaction ex_env ex_manager ex_account ex_send ex_call =
     ([CallContext 60 ''eth_getTransactionCount''
         [ArgAddress (HexToAddress ''0xaa''), ArgString ''latest''],
       SignTx_called
         (NewTransaction 5 (HexToAddress ''0xbb'') (Some 1) (Some 21000) (Some 2) []) 3 42,
       EncodeToBytes_called 1,
       CallContext 60 ''eth_sendRawTransaction'' [ArgString ''0xf86b'']],
      Inr [(''jsonrpc'', JSString ''2.0''), (''id'', JSNumber 7),
           (''result'', JSRaw (Some ''0x9f'')), (''hash'', JSString ''0x9f'')])"
  using ExecuteRemoteSendTransaction_steps
     [of ex_manager ex_config ex_account "\<lparr>PrivateKey = 42\<rparr>" ex_client ex_send
      "HexToAddress ''0xaa''" "HexToAddress ''0xbb''" 5
      "NewTransaction 5 (HexToAddress ''0xbb'') (Some 1) (Some 21000) (Some 2) []"
      ex_env 1 "''f86b''" "Some ''0x9f''" ex_call]
  by (simp add: ex_manager_def ex_account_def ex_client_def ex_send_def ex_env_def ex_call_def
      ex_config_def uint64_def int64_def)

text \<open>
  Claim C5. When \<^verbatim>\<open>client.Call\<close> is reached (the client is at hand, both script objects
  are made, pre-processing succeeds) and fails with \<open>err\<close>, \<^verbatim>\<open>ExecuteOtherTransaction\<close>
  returns a response and no error. If \<open>err\<close> has an \<^verbatim>\<open>ErrorCode()\<close>, the response is
  \<^verbatim>\<open>jsonrpc\<close>, \<^verbatim>\<open>id\<close> and \<^verbatim>\<open>error: {code, message}\<close> with that code and the error's
  text; otherwise it is \<^verbatim>\<open>newErrorResponse(call, -32603, err.Error(), &req.ID)\<close>, whose
  \<^verbatim>\<open>error\<close> holds the code -32603 and the error's text.
\<close>

theorem ExecuteOtherTransaction_error_classification:
  assumes "api_RPCClient manager = Inr client"
    and "Otto_Object_JSON call = None"
    and "Otto_Object_response call = None"
    and "preProcessRequest env req = Inr messageID"
    and "Call_Raw client (Method req) (Params req) = Inl err"
  shows "snd (ExecuteOtherTransaction env manager req call) =
           Inr (case ErrorCode err of
                  Some code \<Rightarrow>
                    [(''jsonrpc'', JSString ''2.0''), (''id'', ID req),
                     (''error'', JSObject [(''code'', JSNumber code),
                                           (''message'', JSString (Error_text err))])]
                | None \<Rightarrow> newErrorResponse (- 32603) (Error_text err) (ID req))
         \<and> (\<exists>resp. snd (ExecuteOtherTransaction env manager req call) = Inr resp
                \<and> response_error resp =
                    Some (case ErrorCode err of Some code \<Rightarrow> code | None \<Rightarrow> - 32603,
                          Error_text err))"
  using assms
  by (cases err)
     (simp_all add: ExecuteOtherTransaction_def Let_def response_literal_def
        response_error_def newErrorResponse_def)

theorem ExecuteOtherTransaction_error_classification_witness:
  "snd (ExecuteOtherTransaction ex_env
          (ex_manager\<lparr>api_RPCClient :=
             Inr (ex_client\<lparr>Call_Raw :=
                    (\<lambda>method ps. Inl (RPCError (- 32000) ''header not found''))\<rparr>)\<rparr>)
          ex_receipt ex_call)
     = Inr [(''jsonrpc'', JSString ''2.0''), (''id'', JSNumber 7),
            (''error'', JSObject [(''code'', JSNumber (- 32000)),
                                  (''message'', JSString ''header not found'')])]
   \<and> snd (ExecuteOtherTransaction ex_env
          (ex_manager\<lparr>api_RPCClient :=
             Inr (ex_client\<lparr>Call_Raw := (\<lambda>method ps. Inl (Error ''EOF''))\<rparr>)\<rparr>)
          ex_receipt ex_call)
     = Inr (newErrorResponse (- 32603) ''EOF'' (JSNumber 7))"
  using ExecuteOtherTransaction_error_classification
          [of "ex_manager\<lparr>api_RPCClient :=
                 Inr (ex_client\<lparr>Call_Raw :=
                        (\<lambda>method ps. Inl (RPCError (- 32000) ''header not found''))\<rparr>)\<rparr>"
              "ex_client\<lparr>Call_Raw :=
                 (\<lambda>method ps. Inl (RPCError (- 32000) ''header not found''))\<rparr>"
              ex_call ex_env ex_receipt "''1''" "RPCError (- 32000) ''header not found''"]
        ExecuteOtherTransaction_error_classification
          [of "ex_manager\<lparr>api_RPCClient :=
                 Inr (ex_client\<lparr>Call_Raw := (\<lambda>method ps. Inl (Error ''EOF''))\<rparr>)\<rparr>"
              "ex_client\<lparr>Call_Raw := (\<lambda>method ps. Inl (Error ''EOF''))\<rparr>"
              ex_call ex_env ex_receipt "''1''" "Error ''EOF''"]
  by (simp add: ex_manager_def ex_call_def ex_env_def ex_receipt_def)

text \<open>
  Claim C6. When \<^verbatim>\<open>client.Call\<close> is reached and succeeds with the nil raw message, the
  response is exactly \<^verbatim>\<open>jsonrpc: "2.0"\<close>, \<^verbatim>\<open>id\<close> with the request id and
  \<^verbatim>\<open>result: null\<close>, in this order: the \<^verbatim>\<open>result\<close> property is there and holds the
  script engine's null. For \<^verbatim>\<open>eth_getTransactionReceipt\<close> with id 7 that is
  \<^verbatim>\<open>{"jsonrpc":"2.0","id":7,"result":null}\<close>.
\<close>

theorem ExecuteOtherTransaction_null_result:
  assumes "api_RPCClient manager = Inr client"
    and "Otto_Object_JSON call = None"
    and "Otto_Object_response call = None"
    and "preProcessRequest env req = Inr messageID"
    and "Call_Raw client (Method req) (Params req) = Inr None"
  shows "snd (ExecuteOtherTransaction env manager req call) =
           Inr [(''jsonrpc'', JSString ''2.0''), (''id'', ID req), (''result'', JSNull)]"
  using assms
  by (simp add: ExecuteOtherTransaction_def Let_def response_literal_def)

theorem ExecuteOtherTransaction_null_result_witness:
  "Method ex_receipt = ''eth_getTransactionReceipt''
   \<and> snd (ExecuteOtherTransaction ex_env ex_manager ex_receipt ex_call) =
       Inr [(''jsonrpc'', JSString ''2.0''), (''id'', JSNumber 7), (''result'', JSNull)]"
  using ExecuteOtherTransaction_null_result
          [of ex_manager ex_client ex_call ex_env ex_receipt "''1''"]
  by (simp add: ex_manager_def ex_call_def ex_env_def ex_receipt_def ex_client_def)

text \<open>
  Claim C8. When the response object can be made (so that \<^verbatim>\<open>processRPCCall\<close> is reached),
  \<^verbatim>\<open>ExecuteLocalSendTransaction\<close> returns a response and no error: if
  \<^verbatim>\<open>processRPCCall\<close> returns no error, the response is \<^verbatim>\<open>jsonrpc\<close>, the request id
  under \<^verbatim>\<open>id\<close> and the hex of the transaction hash under \<^verbatim>\<open>result\<close>; if it returns an
  error (the transaction was rejected or timed out), the response is
  \<^verbatim>\<open>newErrorResponse(call, -32603, err.Error(), &req.ID)\<close>, whose \<^verbatim>\<open>error\<close> holds the
  code -32603 and the error's text, and which carries the request id.
\<close>

theorem ExecuteLocalSendTransaction_response:
  assumes "Otto_Object_response call = None"
  shows "snd (ExecuteLocalSendTransaction env manager req call) =
           Inr (case snd (processRPCCall env req) of
                  None \<Rightarrow>
                    [(''jsonrpc'', JSString ''2.0''), (''id'', ID req),
                     (''result'', JSString (Hex (fst (processRPCCall env req))))]
                | Some e \<Rightarrow> newErrorResponse (- 32603) (Error_text e) (ID req))
         \<and> (case snd (processRPCCall env req) of
               None \<Rightarrow> True
             | Some e \<Rightarrow>
                 (\<exists>resp. snd (ExecuteLocalSendTransaction env manager req call) = Inr resp
                    \<and> response_error resp = Some (- 32603, Error_text e)
                    \<and> map_of resp ''id'' = Some (ID req)))"
  using assms
  by (cases "processRPCCall env req")
     (simp add: ExecuteLocalSendTransaction_def Let_def response_literal_def
        response_error_newErrorResponse split: option.split,
      simp add: newErrorResponse_def)

theorem ExecuteLocalSendTransaction_response_witness:
  "snd (ExecuteLocalSendTransaction ex_env ex_manager ex_send ex_call) =
     Inr [(''jsonrpc'', JSString ''2.0''), (''id'', JSNumber 7), (''result'', JSString ''0x77'')]
   \<and> snd (ExecuteLocalSendTransaction
            (ex_env\<lparr>processRPCCall :=
               (\<lambda>req. (HexToHash ''0x00'', Some (Error ''transaction has been discarded'')))\<rparr>)
            ex_manager ex_send ex_call) =
     Inr (newErrorResponse (- 32603) ''transaction has been discarded'' (JSNumber 7))"
  using ExecuteLocalSendTransaction_response [of ex_call ex_env ex_manager ex_send]
    ExecuteLocalSendTransaction_response [of ex_call "ex_env\<lparr>processRPCCall :=
               (\<lambda>req. (HexToHash ''0x00'', Some (Error ''transaction has been discarded'')))\<rparr>"
       ex_manager ex_send]
  by (simp add: ex_call_def ex_env_def ex_send_def)

subsection \<open>The node manager\<close>

lemmas mgr_defs = emit_def make_chan_def is_closed_def close_chan_def setConfig_def getConfig_def
  getUpstreamConfig_def setNode_def getNode_def setNodeStarted_def nodeStartedIsNil_def
  readNodeStarted_def closeNodeStarted_def setNodeStopped_def nodeStoppedIsNil_def
  readNodeStopped_def closeNodeStopped_def setWhisperService_def getWhisperService_def
  whisperServiceIsNil_def setLesService_def lesServiceIsNil_def setRPCClient_def
  getRPCClient_def isNodeAvailable_def reset_def

lemma StartNode_ex:
  "StartNode_and_goroutine ex_nodeenv ex_config NewNodeManager = (Inr (Some 0), Some Parked, ex_running)"
  by (simp add: StartNode_and_goroutine_def StartNode_def startNode_def startNode_goroutine_def
        NewNodeManager_def
        mgr_defs Let_def ex_nodeenv_def ex_running_def)


lemma running_available:
  assumes "running w"
  shows "isNodeAvailable w = None" and "readNodeStarted w = Returns ()"
  using assms by (auto simp: running_def mgr_defs split: option.splits)

lemma startNode_idle:
  assumes "node (mgr w) = None" and "nodeStarted (mgr w) = None"
  shows "startNode env cfg w =
     (case MakeNode env cfg of
        Inl err \<Rightarrow> (Inl err, None, w\<lparr>trace := trace w @ [initLog_call cfg, MakeNode_call cfg]\<rparr>)
      | Inr ethNode \<Rightarrow>
          (Inr (Some (length (closed w))), Some (ethNode, cfg),
           w\<lparr>trace := trace w @ [initLog_call cfg, MakeNode_call cfg],
             closed := closed w @ [False],
             mgr := (mgr w)\<lparr>nodeStarted := Some (length (closed w))\<rparr>\<rparr>))"
  using assms by (simp add: startNode_def mgr_defs Let_def split: sum.split)

text \<open>
  The two paths of the goroutine of \<^verbatim>\<open>startNode\<close> that do close the started channel: the
  node fails to start (the channel is closed, the field is set back to nil, the crash is
  signalled, and the manager is idle again), and everything succeeds (the channel is closed
  before the goroutine waits for the node, and the goroutine ends once it is woken, if no
  reader holds \<^verbatim>\<open>nodeStoppedLock\<close> then).
\<close>

lemma StartNode_node_start_failure:
  assumes "node (mgr w) = None" and "nodeStarted (mgr w) = None"
    and "MakeNode env cfg = Inr ethNode" and "Node_Start env ethNode = Some err"
  shows "(case StartNode_and_goroutine env cfg w of
      (r, st, w') \<Rightarrow>
        r = Inr (Some (length (closed w))) \<and> st = Some Finished
        \<and> is_closed w' (length (closed w))
        \<and> last (trace w') =
            signal_Send (Envelope EventNodeCrashed
              (NodeCrashEvent (Error_text (ErrNodeStartFailure env) @ '': '' @ Error_text err)))
        \<and> IsNodeRunning w' = Returns False
        \<and> node (mgr w') = None \<and> nodeStarted (mgr w') = None)"
  using assms
  by (simp add: StartNode_and_goroutine_def StartNode_def startNode_idle startNode_goroutine_def
        IsNodeRunning_def
        mgr_defs Let_def nth_append)

lemma StartNode_success:
  assumes "node (mgr w) = None" and "nodeStarted (mgr w) = None"
    and "stoppedReaders w = 0" and "stoppedWriters w = 0"
    and "MakeNode env cfg = Inr ethNode" and "Node_Start env ethNode = None"
    and "rpc_NewClient env (Some ethNode) (UpstreamConfig cfg) = Inr client"
  shows "(case StartNode_and_goroutine env cfg w of
      (r, st, w') \<Rightarrow>
        r = Inr (Some (length (closed w))) \<and> st = Some Parked
        \<and> is_closed w' (length (closed w))
        \<and> last (trace w') = signal_Send (Envelope EventNodeStarted EmptyEvent)
        \<and> IsNodeRunning w' = Returns True \<and> running w'
        \<and> fst (startNode_goroutine_resume w') = Finished)"
  using assms
  by (simp add: StartNode_and_goroutine_def StartNode_def startNode_idle startNode_goroutine_def
        IsNodeRunning_def
        startNode_goroutine_resume_def running_def mgr_defs Let_def nth_append)

text \<open>
  The third path: \<^verbatim>\<open>rpc.NewClient\<close> fails. The goroutine signals the crash and ends; the
  started channel stays open and stays the manager's, the node stays set.
\<close>

lemma StartNode_rpc_client_failure:
  assumes "node (mgr w) = None" and "nodeStarted (mgr w) = None"
    and "stoppedReaders w = 0"
    and "MakeNode env cfg = Inr ethNode" and "Node_Start env ethNode = None"
    and "rpc_NewClient env (Some ethNode) (UpstreamConfig cfg) = Inl err"
  shows "(case StartNode_and_goroutine env cfg w of
      (r, st, w') \<Rightarrow>
        r = Inr (Some (length (closed w))) \<and> st = Some Finished
        \<and> nodeStarted (mgr w') = Some (length (closed w))
        \<and> \<not> is_closed w' (length (closed w))
        \<and> last (trace w') =
            signal_Send (Envelope EventNodeCrashed (NodeCrashEvent (Error_text ErrRPCClient)))
        \<and> IsNodeRunning w' = Blocks
        \<and> fst (StartNode env2 cfg2 w') = Inl ErrNodeExists)"
  using assms
  by (simp add: StartNode_and_goroutine_def StartNode_def startNode_idle startNode_goroutine_def
        IsNodeRunning_def startNode_def mgr_defs Let_def nth_append)

text \<open>
  Claim C1, at the input where the code fails it. On a fresh manager, when \<^verbatim>\<open>MakeNode\<close>
  and \<^verbatim>\<open>ethNode.Start()\<close> succeed and \<^verbatim>\<open>rpc.NewClient\<close> fails, \<^verbatim>\<open>StartNode\<close> hands
  channel 0 to its caller, the goroutine runs to its end, and channel 0 is still the
  manager's started channel and is not closed: whoever waits on it waits for good.
\<close>

theorem StartNode_rpc_client_failure_leaves_started_open:
  "(case StartNode_and_goroutine (env\<lparr>MakeNode := (\<lambda>c. Inr ethNode), Node_Start := (\<lambda>n. None),
                        rpc_NewClient := (\<lambda>n u. Inl err)\<rparr>) cfg NewNodeManager of
      (r, st, w) \<Rightarrow>
        r = Inr (Some 0) \<and> st = Some Finished \<and> nodeStarted (mgr w) = Some 0
        \<and> \<not> is_closed w 0)"
  by (simp add: StartNode_and_goroutine_def StartNode_def startNode_def startNode_goroutine_def
        NewNodeManager_def
        mgr_defs Let_def)

text \<open>
  Claim C2, at the input where the code fails it. In the same run the crash is signalled
  with the text of \<^verbatim>\<open>ErrRPCClient\<close>, but the manager is not idle afterwards:
  \<^verbatim>\<open>IsNodeRunning\<close> does not answer (it waits on the started channel, which stays open),
  and any further \<^verbatim>\<open>StartNode\<close> fails with \<^verbatim>\<open>ErrNodeExists\<close>.
\<close>

theorem StartNode_rpc_client_failure_not_idle:
  "(case StartNode_and_goroutine (env\<lparr>MakeNode := (\<lambda>c. Inr ethNode), Node_Start := (\<lambda>n. None),
                        rpc_NewClient := (\<lambda>n u. Inl err)\<rparr>) cfg NewNodeManager of
      (r, st, w) \<Rightarrow>
        st = Some Finished
        \<and> last (trace w) =
            signal_Send (Envelope EventNodeCrashed (NodeCrashEvent ''failed to init RPC client''))
        \<and> IsNodeRunning w = Blocks
        \<and> fst (StartNode env2 cfg2 w) = Inl ErrNodeExists)"
  by (simp add: StartNode_and_goroutine_def StartNode_def startNode_def startNode_goroutine_def
        NewNodeManager_def
        IsNodeRunning_def ErrRPCClient_def mgr_defs Let_def)



text \<open>
  When the goroutine of \<^verbatim>\<open>stopNode\<close> takes \<^verbatim>\<open>nodeStoppedLock\<close> first, it waits for
  \<^verbatim>\<open>m.nodeStopped\<close> with the read lock held, and the goroutine of \<^verbatim>\<open>startNode\<close> waits
  for the write lock in \<^verbatim>\<open>closeNodeStopped\<close>: neither channel is ever closed, the manager
  is not reset and no signal is sent.
\<close>

lemma stopNode_running_stop_goroutine_first:
  assumes "running w" and "node (mgr w) = Some n" and "Node_Stop env n = None"
  shows "\<not> is_closed (after_stopNode StopGoroutineFirst (length (closed w)) (snd (stopNode env w)))
             (length (closed w))"
    and "mgr (after_stopNode StopGoroutineFirst (length (closed w)) (snd (stopNode env w))) =
           mgr w"
    and "closed (after_stopNode StopGoroutineFirst (length (closed w)) (snd (stopNode env w))) =
           closed w @ [False]"
    and "trace (after_stopNode StopGoroutineFirst (length (closed w)) (snd (stopNode env w))) =
           trace w @ [Node_Stop_call n]"
    and "stoppedReaders
           (after_stopNode StopGoroutineFirst (length (closed w)) (snd (stopNode env w))) = 1"
    and "stoppedWriters
           (after_stopNode StopGoroutineFirst (length (closed w)) (snd (stopNode env w))) = 1"
proof -
  from assms(1) obtain d where d: "nodeStopped (mgr w) = Some d"
    by (auto simp: running_def split: option.splits)
  from assms(1) d have f: "d < length (closed w)" "\<not> closed w ! d" "parked w"
      "stoppedReaders w = 0" "stoppedWriters w = 0"
    by (auto simp: running_def is_closed_def split: option.splits)
  define w1 where "w1 = snd (stopNode env w)"
  have w1: "mgr w1 = mgr w" "closed w1 = closed w @ [False]"
      "trace w1 = trace w @ [Node_Stop_call n]" "parked w1" "stoppedReaders w1 = 0"
      "stoppedWriters w1 = 0"
    using assms(2,3) f by (simp_all add: w1_def stopNode_def mgr_defs Let_def)
  have r: "readNodeStopped w1 = (Blocks, w1\<lparr>stoppedReaders := Suc 0\<rparr>)"
    using d f w1 by (simp add: readNodeStopped_def is_closed_def nth_append)
  have g: "stopNode_goroutine (length (closed w)) w1 =
      (WaitsForChannel, w1\<lparr>stoppedReaders := Suc 0\<rparr>)"
    using w1 by (simp add: stopNode_goroutine_def r)
  have h: "node_Wait_returns (w1\<lparr>stoppedReaders := Suc 0\<rparr>) =
      w1\<lparr>stoppedReaders := Suc 0, stoppedWriters := Suc 0, parked := False\<rparr>"
    using w1 by (simp add: node_Wait_returns_def startNode_goroutine_resume_def
          closeNodeStopped_def)
  have k: "stopNode_goroutine_resume (length (closed w))
        (w1\<lparr>stoppedReaders := Suc 0, stoppedWriters := Suc 0, parked := False\<rparr>) =
      (WaitsForChannel, w1\<lparr>stoppedReaders := Suc 0, stoppedWriters := Suc 0, parked := False\<rparr>)"
    using d f w1 by (simp add: stopNode_goroutine_resume_def is_closed_def nth_append)
  have a: "after_stopNode StopGoroutineFirst (length (closed w)) (snd (stopNode env w)) =
      w1\<lparr>stoppedReaders := Suc 0, stoppedWriters := Suc 0, parked := False\<rparr>"
    by (simp add: after_stopNode_def w1_def [symmetric] g h k)
  show "\<not> is_closed (after_stopNode StopGoroutineFirst (length (closed w)) (snd (stopNode env w)))
             (length (closed w))"
    and "mgr (after_stopNode StopGoroutineFirst (length (closed w)) (snd (stopNode env w))) =
           mgr w"
    and "closed (after_stopNode StopGoroutineFirst (length (closed w)) (snd (stopNode env w))) =
           closed w @ [False]"
    and "trace (after_stopNode StopGoroutineFirst (length (closed w)) (snd (stopNode env w))) =
           trace w @ [Node_Stop_call n]"
    and "stoppedReaders
           (after_stopNode StopGoroutineFirst (length (closed w)) (snd (stopNode env w))) = 1"
    and "stoppedWriters
           (after_stopNode StopGoroutineFirst (length (closed w)) (snd (stopNode env w))) = 1"
    unfolding a using w1 by (simp_all add: is_closed_def)
qed

lemma StopNode_running:
  assumes "running w"
  shows "StopNode env w = stopNode env w"
  using assms running_available [OF assms]
  by (auto simp: StopNode_def running_def nodeStoppedIsNil_def split: option.splits)

text \<open>Whenever the goroutine of \<^verbatim>\<open>stopNode\<close> gets to its end, the manager is reset.\<close>

lemma stopNode_goroutine_rest_Finished:
  assumes "fst (stopNode_goroutine_rest c w) = Finished"
  shows "is_closed (snd (stopNode_goroutine_rest c w)) c
     \<and> nodeStarted (mgr (snd (stopNode_goroutine_rest c w))) = None
     \<and> node (mgr (snd (stopNode_goroutine_rest c w))) = None
     \<and> config (mgr (snd (stopNode_goroutine_rest c w))) = None
     \<and> rpcClient (mgr (snd (stopNode_goroutine_rest c w))) = None"
  using assms
  by (auto simp: stopNode_goroutine_rest_def mgr_defs Let_def split: option.splits if_splits)

text \<open>
  Claim C7, as stated, fails. After a \<^verbatim>\<open>StopNode\<close> that has completed (its goroutine
  has run to its end and its channel 2 is closed), \<^verbatim>\<open>RPCClient\<close> returns the nil client,
  and its result type has no error. And
  while a start is in progress (the started channel 0 has been handed out and is open, the
  goroutine has not yet installed the node), \<^verbatim>\<open>NodeConfig\<close> does not block: it fails
  with \<^verbatim>\<open>ErrNoRunningNode\<close>; \<^verbatim>\<open>RPCClient\<close> returns nil there, too.
\<close>

theorem RPCClient_after_stop_counterexample:
  "fst (StopNode ex_nodeenv ex_running) = Returns (Inr 2)
   \<and> fst (stopNode_goroutine 2 (node_Wait_returns (snd (StopNode ex_nodeenv ex_running))))
       = Finished
   \<and> is_closed (after_stopNode StartGoroutineFirst 2 (snd (StopNode ex_nodeenv ex_running))) 2
   \<and> RPCClient (after_stopNode StartGoroutineFirst 2 (snd (StopNode ex_nodeenv ex_running)))
       = None
   \<and> fst (StartNode ex_nodeenv ex_config NewNodeManager) = Inr (Some 0)
   \<and> \<not> is_closed (snd (snd (StartNode ex_nodeenv ex_config NewNodeManager))) 0
   \<and> NodeConfig (snd (snd (StartNode ex_nodeenv ex_config NewNodeManager)))
       = Returns (Inl ErrNoRunningNode)
   \<and> RPCClient (snd (snd (StartNode ex_nodeenv ex_config NewNodeManager))) = None"
  by (simp add: StopNode_def stopNode_def after_stopNode_def node_Wait_returns_def
        stopNode_goroutine_def stopNode_goroutine_rest_def
        startNode_goroutine_resume_def StartNode_def startNode_def NodeConfig_def RPCClient_def
        NewNodeManager_def mgr_defs Let_def ex_running_def ex_nodeenv_def)

text \<open>
  Claim C7, amended. \<^verbatim>\<open>RPCClient\<close> makes no check and never blocks: it returns the stored
  client, nil or not. The accessors \<^verbatim>\<open>Node\<close>, \<^verbatim>\<open>NodeConfig\<close>, \<^verbatim>\<open>AccountManager\<close>,
  \<^verbatim>\<open>AccountKeyStore\<close>, \<^verbatim>\<open>LightEthereumService\<close> and \<^verbatim>\<open>WhisperService\<close> fail with
  \<^verbatim>\<open>ErrNoRunningNode\<close> (and \<^verbatim>\<open>IsNodeRunning\<close> answers false) whenever the started
  channel or the node is nil; when both are set they block if the started channel is open,
  and return if it is closed. After a \<^verbatim>\<open>Stop\<close> that has completed, that is, whenever the
  goroutine of \<^verbatim>\<open>stopNode\<close> has got to its end (at once, or after waiting for the
  channel), the channel that \<^verbatim>\<open>stopNode\<close> returned is closed and the started channel,
  the node, the configuration and the RPC client are nil, so that the checked accessors
  fail with \<^verbatim>\<open>ErrNoRunningNode\<close>.
\<close>

theorem accessors_guarded_by_started_channel_and_node:
  "RPCClient w = rpcClient (mgr w)
   \<and> (case (nodeStarted (mgr w), node (mgr w)) of
        (Some c, Some n) \<Rightarrow>
          if is_closed w c
          then Node w = Returns (Inr (Some n))
             \<and> NodeConfig w = Returns (Inr (config (mgr w)))
             \<and> IsNodeRunning w = Returns True
             \<and> AccountManager w =
                 Returns (case node_AccountManager n of
                            None \<Rightarrow> Inl ErrInvalidAccountManager
                          | Some accountManager \<Rightarrow> Inr (Some accountManager))
             \<and> (\<exists>r. AccountKeyStore w = Returns r)
             \<and> (\<exists>r. LightEthereumService env w = Returns r)
             \<and> (\<exists>r. WhisperService env w = Returns r)
          else Node w = Blocks \<and> NodeConfig w = Blocks \<and> IsNodeRunning w = Blocks
             \<and> AccountManager w = Blocks \<and> AccountKeyStore w = Blocks
             \<and> LightEthereumService env w = Blocks \<and> WhisperService env w = Blocks
      | _ \<Rightarrow>
          Node w = Returns (Inl ErrNoRunningNode)
        \<and> NodeConfig w = Returns (Inl ErrNoRunningNode)
        \<and> AccountManager w = Returns (Inl ErrNoRunningNode)
        \<and> AccountKeyStore w = Returns (Inl ErrNoRunningNode)
        \<and> LightEthereumService env w = Returns (Inl ErrNoRunningNode)
        \<and> WhisperService env w = Returns (Inl ErrNoRunningNode)
        \<and> IsNodeRunning w = Returns False)
   \<and> (fst (stopNode_goroutine c w) = Finished \<longrightarrow>
        is_closed (snd (stopNode_goroutine c w)) c
        \<and> nodeStarted (mgr (snd (stopNode_goroutine c w))) = None
        \<and> node (mgr (snd (stopNode_goroutine c w))) = None
        \<and> config (mgr (snd (stopNode_goroutine c w))) = None
        \<and> rpcClient (mgr (snd (stopNode_goroutine c w))) = None)
   \<and> (fst (stopNode_goroutine_resume c w) = Finished \<longrightarrow>
        is_closed (snd (stopNode_goroutine_resume c w)) c
        \<and> nodeStarted (mgr (snd (stopNode_goroutine_resume c w))) = None
        \<and> node (mgr (snd (stopNode_goroutine_resume c w))) = None
        \<and> config (mgr (snd (stopNode_goroutine_resume c w))) = None
        \<and> rpcClient (mgr (snd (stopNode_goroutine_resume c w))) = None)"
proof -
  have a: "RPCClient w = rpcClient (mgr w)"
    by (simp add: RPCClient_def getRPCClient_def)
  have b: "(case (nodeStarted (mgr w), node (mgr w)) of
        (Some c, Some n) \<Rightarrow>
          if is_closed w c
          then Node w = Returns (Inr (Some n))
             \<and> NodeConfig w = Returns (Inr (config (mgr w)))
             \<and> IsNodeRunning w = Returns True
             \<and> AccountManager w =
                 Returns (case node_AccountManager n of
                            None \<Rightarrow> Inl ErrInvalidAccountManager
                          | Some accountManager \<Rightarrow> Inr (Some accountManager))
             \<and> (\<exists>r. AccountKeyStore w = Returns r)
             \<and> (\<exists>r. LightEthereumService env w = Returns r)
             \<and> (\<exists>r. WhisperService env w = Returns r)
          else Node w = Blocks \<and> NodeConfig w = Blocks \<and> IsNodeRunning w = Blocks
             \<and> AccountManager w = Blocks \<and> AccountKeyStore w = Blocks
             \<and> LightEthereumService env w = Blocks \<and> WhisperService env w = Blocks
      | _ \<Rightarrow>
          Node w = Returns (Inl ErrNoRunningNode)
        \<and> NodeConfig w = Returns (Inl ErrNoRunningNode)
        \<and> AccountManager w = Returns (Inl ErrNoRunningNode)
        \<and> AccountKeyStore w = Returns (Inl ErrNoRunningNode)
        \<and> LightEthereumService env w = Returns (Inl ErrNoRunningNode)
        \<and> WhisperService env w = Returns (Inl ErrNoRunningNode)
        \<and> IsNodeRunning w = Returns False)"
    by (simp add: Node_def NodeConfig_def IsNodeRunning_def AccountManager_def
          AccountKeyStore_def LightEthereumService_def WhisperService_def
          isNodeAvailable_def nodeStartedIsNil_def getNode_def readNodeStarted_def
          lesServiceIsNil_def whisperServiceIsNil_def getWhisperService_def
          split: option.split list.split backend.split)
  have c: "fst (stopNode_goroutine c w) = Finished \<longrightarrow>
        is_closed (snd (stopNode_goroutine c w)) c
        \<and> nodeStarted (mgr (snd (stopNode_goroutine c w))) = None
        \<and> node (mgr (snd (stopNode_goroutine c w))) = None
        \<and> config (mgr (snd (stopNode_goroutine c w))) = None
        \<and> rpcClient (mgr (snd (stopNode_goroutine c w))) = None"
  proof
    assume f: "fst (stopNode_goroutine c w) = Finished"
    obtain o1 w1 where r: "readNodeStopped w = (o1, w1)" by (cases "readNodeStopped w")
    from f r have e: "stopNode_goroutine c w = stopNode_goroutine_rest c w1"
      by (cases o1) (simp_all add: stopNode_goroutine_def split: if_splits)
    from f show "is_closed (snd (stopNode_goroutine c w)) c
        \<and> nodeStarted (mgr (snd (stopNode_goroutine c w))) = None
        \<and> node (mgr (snd (stopNode_goroutine c w))) = None
        \<and> config (mgr (snd (stopNode_goroutine c w))) = None
        \<and> rpcClient (mgr (snd (stopNode_goroutine c w))) = None"
      unfolding e by (rule stopNode_goroutine_rest_Finished)
  qed
  have d: "fst (stopNode_goroutine_resume c w) = Finished \<longrightarrow>
        is_closed (snd (stopNode_goroutine_resume c w)) c
        \<and> nodeStarted (mgr (snd (stopNode_goroutine_resume c w))) = None
        \<and> node (mgr (snd (stopNode_goroutine_resume c w))) = None
        \<and> config (mgr (snd (stopNode_goroutine_resume c w))) = None
        \<and> rpcClient (mgr (snd (stopNode_goroutine_resume c w))) = None"
  proof
    assume f: "fst (stopNode_goroutine_resume c w) = Finished"
    then have e: "stopNode_goroutine_resume c w =
        stopNode_goroutine_rest c (w\<lparr>stoppedReaders := stoppedReaders w - 1\<rparr>)"
      by (auto simp: stopNode_goroutine_resume_def split: option.splits if_splits)
    from f show "is_closed (snd (stopNode_goroutine_resume c w)) c
        \<and> nodeStarted (mgr (snd (stopNode_goroutine_resume c w))) = None
        \<and> node (mgr (snd (stopNode_goroutine_resume c w))) = None
        \<and> config (mgr (snd (stopNode_goroutine_resume c w))) = None
        \<and> rpcClient (mgr (snd (stopNode_goroutine_resume c w))) = None"
      unfolding e by (rule stopNode_goroutine_rest_Finished)
  qed
  from a b c d show ?thesis by blast
qed

theorem accessors_guarded_by_started_channel_and_node_witness:
  "fst (StopNode ex_nodeenv ex_running) = Returns (Inr 2)
   \<and> fst (stopNode_goroutine 2 (node_Wait_returns (snd (StopNode ex_nodeenv ex_running))))
       = Finished
   \<and> NodeConfig (after_stopNode StartGoroutineFirst 2 (snd (StopNode ex_nodeenv ex_running)))
       = Returns (Inl ErrNoRunningNode)
   \<and> Node (after_stopNode StartGoroutineFirst 2 (snd (StopNode ex_nodeenv ex_running)))
       = Returns (Inl ErrNoRunningNode)
   \<and> AccountKeyStore (after_stopNode StartGoroutineFirst 2 (snd (StopNode ex_nodeenv ex_running)))
       = Returns (Inl ErrNoRunningNode)
   \<and> NodeConfig ex_running = Returns (Inr (Some ex_config))
   \<and> AccountManager ex_running = Returns (Inr (Some \<lparr>Backends = [KeyStore 0]\<rparr>))
   \<and> NodeConfig (ex_running\<lparr>closed := [False, False]\<rparr>) = Blocks"
proof -
  define w1 where "w1 = node_Wait_returns (snd (StopNode ex_nodeenv ex_running))"
  define w' where "w' = snd (stopNode_goroutine 2 w1)"
  have stop: "fst (StopNode ex_nodeenv ex_running) = Returns (Inr 2)"
    by (simp add: StopNode_def stopNode_def ex_running_def ex_nodeenv_def
          mgr_defs Let_def)
  have fin: "fst (stopNode_goroutine 2 w1) = Finished"
    by (simp add: w1_def StopNode_def stopNode_def node_Wait_returns_def
          stopNode_goroutine_def stopNode_goroutine_rest_def startNode_goroutine_resume_def
          ex_running_def ex_nodeenv_def mgr_defs Let_def)
  have w'_eq: "after_stopNode StartGoroutineFirst 2 (snd (StopNode ex_nodeenv ex_running)) = w'"
    by (simp add: after_stopNode_def w'_def w1_def)
  from accessors_guarded_by_started_channel_and_node [of w1 ex_nodeenv 2] fin
  have nil: "nodeStarted (mgr w') = None"
    by (simp add: w'_def)
  from accessors_guarded_by_started_channel_and_node [of w' ex_nodeenv 2] nil
  have after: "NodeConfig w' = Returns (Inl ErrNoRunningNode)
      \<and> Node w' = Returns (Inl ErrNoRunningNode)
      \<and> AccountKeyStore w' = Returns (Inl ErrNoRunningNode)"
    by simp
  from accessors_guarded_by_started_channel_and_node [of ex_running ex_nodeenv 2]
  have started: "NodeConfig ex_running = Returns (Inr (Some ex_config))
      \<and> AccountManager ex_running = Returns (Inr (Some \<lparr>Backends = [KeyStore 0]\<rparr>))"
    by (simp add: ex_running_def is_closed_def ex_node_def)
  from accessors_guarded_by_started_channel_and_node
         [of "ex_running\<lparr>closed := [False, False]\<rparr>" ex_nodeenv 2]
  have starting: "NodeConfig (ex_running\<lparr>closed := [False, False]\<rparr>) = Blocks"
    by (simp add: ex_running_def is_closed_def)
  from stop fin after started starting show ?thesis
    by (simp add: w'_eq) (simp add: w1_def)
qed


text \<open>
  On a running node whose \<^verbatim>\<open>Stop\<close> succeeds, when the goroutine of \<^verbatim>\<open>stopNode\<close> takes
  \<^verbatim>\<open>nodeStoppedLock\<close> first, \<^verbatim>\<open>ResetChainData\<close> never returns from its wait on the channel
  of \<^verbatim>\<open>stopNode\<close>: nothing but the \<^verbatim>\<open>Stop\<close> has happened, and the node stays set.
\<close>

lemma ResetChainData_stop_goroutine_first:
  assumes "running w" and "node (mgr w) = Some n" and "Node_Stop env n = None"
  shows "(case ResetChainData StopGoroutineFirst env w of
      (r, task, w') \<Rightarrow>
        r = Blocks \<and> task = None \<and> trace w' = trace w @ [Node_Stop_call n]
        \<and> node (mgr w') = Some n)"
proof -
  have R: "ResetChainData StopGoroutineFirst env w = resetChainData StopGoroutineFirst env w"
    by (simp add: ResetChainData_def running_available [OF assms(1)])
  note st = stopNode_running_stop_goroutine_first [OF assms]
  obtain d where d: "nodeStopped (mgr w) = Some d"
    using assms(1) by (auto simp: running_def split: option.splits)
  have s1: "fst (stopNode env w) = Returns (Inr (length (closed w)))"
    using assms by (simp add: stopNode_def make_chan_def emit_def Let_def)
  obtain o1 w1 where s: "stopNode env w = (o1, w1)" by (cases "stopNode env w")
  have o1: "o1 = Returns (Inr (length (closed w)))" using s1 s by simp
  show ?thesis
    using st s assms(2)
    by (simp add: R resetChainData_def o1 Let_def)
qed



end
